theory Spec2Isabelle
  imports Complex_Main
begin

section \<open>JavaScript numbers\<close>

text \<open>
  A JavaScript number is modelled as an extended real or NaN.  Arithmetic on finite
  values is exact real arithmetic: the rounding of IEEE doubles, overflow to an
  infinity and the sign of zero are outside this model.  The operations below follow
  the ECMAScript rules for NaN and the infinities.
\<close>

datatype jsnum = Fin real | PInf | NInf | NaN

fun js_neg :: "jsnum \<Rightarrow> jsnum" where
  "js_neg (Fin a) = Fin (- a)"
| "js_neg PInf = NInf"
| "js_neg NInf = PInf"
| "js_neg NaN = NaN"

fun js_add :: "jsnum \<Rightarrow> jsnum \<Rightarrow> jsnum" where
  "js_add NaN _ = NaN"
| "js_add _ NaN = NaN"
| "js_add (Fin a) (Fin b) = Fin (a + b)"
| "js_add PInf NInf = NaN"
| "js_add NInf PInf = NaN"
| "js_add PInf _ = PInf"
| "js_add _ PInf = PInf"
| "js_add NInf _ = NInf"
| "js_add _ NInf = NInf"

definition js_sub :: "jsnum \<Rightarrow> jsnum \<Rightarrow> jsnum" where
  "js_sub a b = js_add a (js_neg b)"

text \<open>The sign of a number that is not NaN: \<open>-1\<close>, \<open>0\<close> or \<open>1\<close>.\<close>

fun js_sign :: "jsnum \<Rightarrow> int" where
  "js_sign (Fin a) = (if a < 0 then -1 else if a = 0 then 0 else 1)"
| "js_sign PInf = 1"
| "js_sign NInf = -1"
| "js_sign NaN = 0"

definition signed_inf :: "int \<Rightarrow> jsnum" where
  "signed_inf s = (if s = 0 then NaN else if s < 0 then NInf else PInf)"

fun js_mul :: "jsnum \<Rightarrow> jsnum \<Rightarrow> jsnum" where
  "js_mul NaN _ = NaN"
| "js_mul _ NaN = NaN"
| "js_mul (Fin a) (Fin b) = Fin (a * b)"
| "js_mul a b = signed_inf (js_sign a * js_sign b)"

text \<open>
  Division.  A zero divisor is read as \<open>+0\<close>; the source only ever divides by
  non-zero literals.
\<close>

fun js_div :: "jsnum \<Rightarrow> jsnum \<Rightarrow> jsnum" where
  "js_div NaN _ = NaN"
| "js_div _ NaN = NaN"
| "js_div (Fin a) (Fin b) = (if b = 0 then signed_inf (js_sign (Fin a)) else Fin (a / b))"
| "js_div (Fin a) _ = Fin 0"
| "js_div a (Fin b) = signed_inf (js_sign a * (if b < 0 then -1 else 1))"
| "js_div _ _ = NaN"

text \<open>Comparisons: \<open><\<close>, \<open>>\<close>, \<open>>=\<close>, \<open>===\<close>.  Every comparison with NaN is false.\<close>

fun js_lt :: "jsnum \<Rightarrow> jsnum \<Rightarrow> bool" where
  "js_lt NaN _ = False"
| "js_lt _ NaN = False"
| "js_lt (Fin a) (Fin b) = (a < b)"
| "js_lt NInf NInf = False"
| "js_lt NInf _ = True"
| "js_lt PInf _ = False"
| "js_lt (Fin a) PInf = True"
| "js_lt (Fin a) NInf = False"

definition js_gt :: "jsnum \<Rightarrow> jsnum \<Rightarrow> bool" where
  "js_gt a b = js_lt b a"

definition js_eq :: "jsnum \<Rightarrow> jsnum \<Rightarrow> bool" where
  "js_eq a b = (a \<noteq> NaN \<and> a = b)"

definition js_ge :: "jsnum \<Rightarrow> jsnum \<Rightarrow> bool" where
  "js_ge a b = (js_lt b a \<or> js_eq a b)"

text \<open>Truthiness of a number, as \<open>x || 0\<close> reads it: NaN and zero are falsy.\<close>

definition js_truthy :: "jsnum \<Rightarrow> bool" where
  "js_truthy a = (a \<noteq> NaN \<and> a \<noteq> Fin 0)"

definition Math_min :: "jsnum \<Rightarrow> jsnum \<Rightarrow> jsnum" where
  "Math_min a b = (if a = NaN \<or> b = NaN then NaN else if js_lt b a then b else a)"

definition Math_max :: "jsnum \<Rightarrow> jsnum \<Rightarrow> jsnum" where
  "Math_max a b = (if a = NaN \<or> b = NaN then NaN else if js_lt a b then b else a)"

fun Math_floor :: "jsnum \<Rightarrow> jsnum" where
  "Math_floor (Fin a) = Fin (of_int \<lfloor>a\<rfloor>)"
| "Math_floor x = x"

fun Math_abs :: "jsnum \<Rightarrow> jsnum" where
  "Math_abs (Fin a) = Fin \<bar>a\<bar>"
| "Math_abs NaN = NaN"
| "Math_abs _ = PInf"

fun Math_sqrt :: "jsnum \<Rightarrow> jsnum" where
  "Math_sqrt (Fin a) = (if a < 0 then NaN else Fin (sqrt a))"
| "Math_sqrt PInf = PInf"
| "Math_sqrt _ = NaN"

fun Math_cos :: "jsnum \<Rightarrow> jsnum" where
  "Math_cos (Fin a) = Fin (cos a)"
| "Math_cos _ = NaN"

fun Math_sin :: "jsnum \<Rightarrow> jsnum" where
  "Math_sin (Fin a) = Fin (sin a)"
| "Math_sin _ = NaN"

type_synonym vec2 = "jsnum \<times> jsnum"

text \<open>\<open>Vector2.equals\<close> compares both components with \<open>===\<close>.\<close>

definition Vector2_equals :: "vec2 \<Rightarrow> vec2 \<Rightarrow> bool" where
  "Vector2_equals v w = (js_eq (fst v) (fst w) \<and> js_eq (snd v) (snd w))"

text \<open>\<open>Vector2.length\<close>.\<close>

definition Vector2_length :: "vec2 \<Rightarrow> jsnum" where
  "Vector2_length v = Math_sqrt (js_add (js_mul (fst v) (fst v)) (js_mul (snd v) (snd v)))"

section \<open>The path mini-language: tokens and numbers\<close>

text \<open>
  Strings are lists of code units below 256.  \<open>isSpace\<close> is the class \<open>\s\<close> of a
  regular expression (and the white space \<open>trim\<close> removes) on such code units.
\<close>

definition isSpace :: "char \<Rightarrow> bool" where
  "isSpace c = ((of_char c :: nat) \<in> {9, 10, 11, 12, 13, 32, 160})"

definition isCommandLetter :: "char \<Rightarrow> bool" where
  "isCommandLetter c = (c \<in> set ''MmLlHhVvCcSsQqTtAaZz'')"

text \<open>
  \<open>pathData.match(/[MmLlHhVvCcSsQqTtAaZz][^MmLlHhVvCcSsQqTtAaZz]*/g) || []\<close>: every
  match starts at a command letter and runs up to the next command letter; the text
  before the first command letter is matched by nothing.
\<close>

function matchCommands :: "string \<Rightarrow> string list" where
  "matchCommands [] = []"
| "matchCommands (c # cs) =
     (if isCommandLetter c
      then (c # takeWhile (\<lambda>x. \<not> isCommandLetter x) cs)
             # matchCommands (dropWhile (\<lambda>x. \<not> isCommandLetter x) cs)
      else matchCommands cs)"
  by pat_completeness auto
termination
  by (relation "measure length") (auto simp: less_Suc_eq_le length_dropWhile_le)

text \<open>
  \<open>s.trim().split(/[\s,]+/).filter(Boolean)\<close>: the maximal runs of characters that
  are neither white space nor a comma.
\<close>

definition isSeparator :: "char \<Rightarrow> bool" where
  "isSeparator c = (isSpace c \<or> c = CHR '','')"

function splitCoords :: "string \<Rightarrow> string list" where
  "splitCoords [] = []"
| "splitCoords (c # cs) =
     (if isSeparator c then splitCoords cs
      else (c # takeWhile (\<lambda>x. \<not> isSeparator x) cs)
             # splitCoords (dropWhile (\<lambda>x. \<not> isSeparator x) cs))"
  by pat_completeness auto
termination
  by (relation "measure length") (auto simp: less_Suc_eq_le length_dropWhile_le)

text \<open>
  \<open>Number(s)\<close> on a string: white space is trimmed, the empty string is \<open>0\<close>, then
  the string is a hexadecimal, octal or binary integer literal (unsigned), or a signed
  decimal literal (with optional fraction and exponent) or \<open>Infinity\<close>; every other
  string is NaN.
\<close>

definition digitOf :: "char \<Rightarrow> nat option" where
  "digitOf c =
     (let n = (of_char c :: nat) in
      if 48 \<le> n \<and> n \<le> 57 then Some (n - 48)
      else if 97 \<le> n \<and> n \<le> 102 then Some (n - 87)
      else if 65 \<le> n \<and> n \<le> 70 then Some (n - 55)
      else None)"

definition isDigitIn :: "nat \<Rightarrow> char \<Rightarrow> bool" where
  "isDigitIn b c = (case digitOf c of None \<Rightarrow> False | Some d \<Rightarrow> d < b)"

definition digitsValue :: "nat \<Rightarrow> string \<Rightarrow> nat" where
  "digitsValue b s = foldl (\<lambda>a c. a * b + (case digitOf c of None \<Rightarrow> 0 | Some d \<Rightarrow> d)) 0 s"

definition radixLiteral :: "nat \<Rightarrow> string \<Rightarrow> nat option" where
  "radixLiteral b s =
     (if s \<noteq> [] \<and> list_all (isDigitIn b) s then Some (digitsValue b s) else None)"

definition splitSign :: "string \<Rightarrow> bool \<times> string" where
  "splitSign s =
     (case s of
        [] \<Rightarrow> (False, [])
      | c # r \<Rightarrow> if c = CHR ''-'' then (True, r) else if c = CHR ''+'' then (False, r) else (False, s))"

definition exponentPart :: "string \<Rightarrow> int option" where
  "exponentPart r =
     (case r of
        [] \<Rightarrow> Some 0
      | c # ds \<Rightarrow>
          if c = CHR ''e'' \<or> c = CHR ''E''
          then (case radixLiteral 10 (snd (splitSign ds)) of
                  None \<Rightarrow> None
                | Some e \<Rightarrow> Some (if fst (splitSign ds) then - int e else int e))
          else None)"

definition scale10 :: "nat \<Rightarrow> int \<Rightarrow> real" where
  "scale10 m e = (if 0 \<le> e then real m * 10 ^ nat e else real m / 10 ^ nat (- e))"

definition decimalLiteral :: "string \<Rightarrow> real option" where
  "decimalLiteral s =
     (let ip = takeWhile (isDigitIn 10) s;
          r1 = dropWhile (isDigitIn 10) s;
          hasDot = (r1 \<noteq> [] \<and> hd r1 = CHR ''.'');
          fp = (if hasDot then takeWhile (isDigitIn 10) (tl r1) else []);
          r2 = (if hasDot then dropWhile (isDigitIn 10) (tl r1) else r1)
      in if ip = [] \<and> fp = [] then None
         else (case exponentPart r2 of
                 None \<Rightarrow> None
               | Some e \<Rightarrow> Some (scale10 (digitsValue 10 (ip @ fp)) (e - int (length fp)))))"

definition trim :: "string \<Rightarrow> string" where
  "trim s = rev (dropWhile isSpace (rev (dropWhile isSpace s)))"

definition js_Number :: "string \<Rightarrow> jsnum" where
  "js_Number str =
     (let s = trim str in
      if s = [] then Fin 0
      else if take 2 s \<in> {''0x'', ''0X''} \<and> radixLiteral 16 (drop 2 s) \<noteq> None
        then Fin (real (digitsValue 16 (drop 2 s)))
      else if take 2 s \<in> {''0o'', ''0O''} \<and> radixLiteral 8 (drop 2 s) \<noteq> None
        then Fin (real (digitsValue 8 (drop 2 s)))
      else if take 2 s \<in> {''0b'', ''0B''} \<and> radixLiteral 2 (drop 2 s) \<noteq> None
        then Fin (real (digitsValue 2 (drop 2 s)))
      else if snd (splitSign s) = ''Infinity''
        then (if fst (splitSign s) then NInf else PInf)
      else (case decimalLiteral (snd (splitSign s)) of
              None \<Rightarrow> NaN
            | Some v \<Rightarrow> Fin (if fst (splitSign s) then - v else v)))"

text \<open>\<open>command.slice(1).trim().split(/[\s,]+/).filter(Boolean).map(Number)\<close>.\<close>

definition coordsOf :: "string \<Rightarrow> jsnum list" where
  "coordsOf args = map js_Number (splitCoords args)"

section \<open>The three.js path object the parsers draw into\<close>

text \<open>
  The source draws into a \<open>THREE.Shape\<close> (a \<open>THREE.Path\<close>) of the three.js library.
  Of that object the parsers use \<open>moveTo\<close>, \<open>lineTo\<close>, \<open>closePath\<close> and \<open>getPoints\<close>;
  they are modelled here after the library's \<open>Path\<close>, \<open>CurvePath\<close>, \<open>Curve\<close> and
  \<open>LineCurve\<close> classes.  Every curve the parsers add is a \<open>LineCurve\<close>, given by its two
  end points \<open>(v1, v2)\<close>.  The flag \<open>autoClose\<close> of a path stays \<open>false\<close> throughout.
\<close>

datatype failure = TypeError | NoReturn

type_synonym lineCurve = "vec2 \<times> vec2"

record shape =
  curves :: "lineCurve list"
  currentPoint :: vec2

definition newShape :: shape where
  "newShape = \<lparr>curves = [], currentPoint = (Fin 0, Fin 0)\<rparr>"

definition moveTo :: "jsnum \<Rightarrow> jsnum \<Rightarrow> shape \<Rightarrow> shape" where
  "moveTo x y sh = sh\<lparr>currentPoint := (x, y)\<rparr>"

definition lineTo :: "jsnum \<Rightarrow> jsnum \<Rightarrow> shape \<Rightarrow> shape" where
  "lineTo x y sh = sh\<lparr>curves := curves sh @ [(currentPoint sh, (x, y))], currentPoint := (x, y)\<rparr>"

text \<open>
  \<open>LineCurve.getPoint(t)\<close>: \<open>v2\<close> itself at \<open>t = 1\<close>, otherwise \<open>(v2 - v1) * t + v1\<close>.
\<close>

definition LineCurve_getPoint :: "lineCurve \<Rightarrow> real \<Rightarrow> vec2" where
  "LineCurve_getPoint c t =
     (if t = 1 then snd c
      else (js_add (js_mul (js_sub (fst (snd c)) (fst (fst c))) (Fin t)) (fst (fst c)),
            js_add (js_mul (js_sub (snd (snd c)) (snd (fst c))) (Fin t)) (snd (fst c))))"

text \<open>\<open>Curve.getPoints(divisions)\<close>: the points at \<open>d / divisions\<close> for \<open>d = 0 .. divisions\<close>.\<close>

definition Curve_getPoints :: "(real \<Rightarrow> 'a) \<Rightarrow> nat \<Rightarrow> 'a list" where
  "Curve_getPoints getPoint divisions =
     map (\<lambda>d. getPoint (real d / real divisions)) [0 ..< Suc divisions]"

text \<open>
  \<open>CurvePath.closePath()\<close> reads \<open>this.curves[0]\<close>, which is \<open>undefined\<close> on a path with
  no curve, and then throws a TypeError; otherwise it adds a closing line unless the
  end point \<open>equals\<close> the start point.  It leaves \<open>currentPoint\<close> alone.
\<close>

definition closePath :: "shape \<Rightarrow> failure + shape" where
  "closePath sh =
     (if curves sh = [] then Inl TypeError
      else let startPoint = LineCurve_getPoint (hd (curves sh)) 0;
               endPoint = LineCurve_getPoint (last (curves sh)) 1
           in if \<not> Vector2_equals startPoint endPoint
              then Inr (sh\<lparr>curves := curves sh @ [(endPoint, startPoint)]\<rparr>)
              else Inr sh)"

text \<open>
  \<open>CurvePath.getPoints(divisions)\<close>: a line curve is sampled with resolution 1 whatever
  \<open>divisions\<close> is, and a point that \<open>equals\<close> the point pushed last is skipped.
\<close>

fun pushDistinct :: "vec2 option \<Rightarrow> vec2 list \<Rightarrow> vec2 list" where
  "pushDistinct lst [] = []"
| "pushDistinct lst (p # ps) =
     (case lst of
        None \<Rightarrow> p # pushDistinct (Some p) ps
      | Some l \<Rightarrow> if Vector2_equals l p then pushDistinct lst ps else p # pushDistinct (Some p) ps)"

definition getPoints :: "jsnum \<Rightarrow> shape \<Rightarrow> vec2 list" where
  "getPoints divisions sh =
     pushDistinct None (concat (map (\<lambda>c. Curve_getPoints (LineCurve_getPoint c) 1) (curves sh)))"

text \<open>The loop \<open>for (i = 1; i < points.length; i++) shape.lineTo(points[i].x, points[i].y)\<close>.\<close>

definition lineToAll :: "vec2 list \<Rightarrow> shape \<Rightarrow> shape" where
  "lineToAll points sh = foldl (\<lambda>s p. lineTo (fst p) (snd p) s) sh (tl points)"

subsection \<open>Bezier curves\<close>

definition CubicBezier :: "real \<Rightarrow> jsnum \<Rightarrow> jsnum \<Rightarrow> jsnum \<Rightarrow> jsnum \<Rightarrow> jsnum" where
  "CubicBezier t p0 p1 p2 p3 =
     js_add (js_add (js_add (js_mul (Fin ((1 - t) * (1 - t) * (1 - t))) p0)
                            (js_mul (Fin (3 * (1 - t) * (1 - t) * t)) p1))
                    (js_mul (Fin (3 * (1 - t) * t * t)) p2))
            (js_mul (Fin (t * t * t)) p3)"

definition QuadraticBezier :: "real \<Rightarrow> jsnum \<Rightarrow> jsnum \<Rightarrow> jsnum \<Rightarrow> jsnum" where
  "QuadraticBezier t p0 p1 p2 =
     js_add (js_add (js_mul (Fin ((1 - t) * (1 - t))) p0) (js_mul (Fin (2 * (1 - t) * t)) p1))
            (js_mul (Fin (t * t)) p2)"

definition CubicBezierCurve_getPoint :: "vec2 \<Rightarrow> vec2 \<Rightarrow> vec2 \<Rightarrow> vec2 \<Rightarrow> real \<Rightarrow> vec2" where
  "CubicBezierCurve_getPoint v0 v1 v2 v3 t =
     (CubicBezier t (fst v0) (fst v1) (fst v2) (fst v3),
      CubicBezier t (snd v0) (snd v1) (snd v2) (snd v3))"

definition QuadraticBezierCurve_getPoint :: "vec2 \<Rightarrow> vec2 \<Rightarrow> vec2 \<Rightarrow> real \<Rightarrow> vec2" where
  "QuadraticBezierCurve_getPoint v0 v1 v2 t =
     (QuadraticBezier t (fst v0) (fst v1) (fst v2),
      QuadraticBezier t (snd v0) (snd v1) (snd v2))"

subsection \<open>Elliptical arcs\<close>

text \<open>
  \<open>Math.atan2(y, x)\<close>.  Its result is NaN or an angle in \<open>[-\<pi>, \<pi>]\<close>; a zero argument is
  read as \<open>+0\<close>.
\<close>

fun Math_atan2 :: "jsnum \<Rightarrow> jsnum \<Rightarrow> jsnum" where
  "Math_atan2 NaN _ = NaN"
| "Math_atan2 _ NaN = NaN"
| "Math_atan2 (Fin y) (Fin x) =
     Fin (if 0 < x then arctan (y / x)
          else if x < 0 then (if 0 \<le> y then arctan (y / x) + pi else arctan (y / x) - pi)
          else if 0 < y then pi / 2 else if y < 0 then - (pi / 2) else 0)"
| "Math_atan2 (Fin y) PInf = Fin 0"
| "Math_atan2 (Fin y) NInf = Fin (if 0 \<le> y then pi else - pi)"
| "Math_atan2 PInf (Fin x) = Fin (pi / 2)"
| "Math_atan2 NInf (Fin x) = Fin (- (pi / 2))"
| "Math_atan2 PInf PInf = Fin (pi / 4)"
| "Math_atan2 PInf NInf = Fin (3 * pi / 4)"
| "Math_atan2 NInf PInf = Fin (- (pi / 4))"
| "Math_atan2 NInf NInf = Fin (- (3 * pi / 4))"

record ellipseCurve =
  aX :: jsnum
  aY :: jsnum
  xRadius :: jsnum
  yRadius :: jsnum
  aStartAngle :: jsnum
  aEndAngle :: jsnum
  aClockwise :: bool
  aRotation :: jsnum

text \<open>
  The two loops of \<open>EllipseCurve.getPoint\<close> that bring \<open>deltaAngle\<close> into \<open>0 .. 2\<pi>\<close>:
  \<open>while (deltaAngle < 0) deltaAngle += twoPi\<close> and
  \<open>while (deltaAngle > twoPi) deltaAngle -= twoPi\<close>.  On a finite angle both end.
\<close>

function wrapUp :: "real \<Rightarrow> real" where
  "wrapUp d = (if d < 0 then wrapUp (d + 2 * pi) else d)"
  by pat_completeness auto
termination
proof (relation "measure (\<lambda>d. nat \<lceil>- d / (2 * pi)\<rceil>)")
  show "wf (measure (\<lambda>d. nat \<lceil>- d / (2 * pi)\<rceil>))" by simp
next
  fix d :: real
  assume neg: "d < 0"
  have eq: "- (d + 2 * pi) / (2 * pi) = - d / (2 * pi) - 1"
    by (simp add: field_simps)
  have pos: "0 < - d / (2 * pi)"
    using neg pi_gt_zero by (simp add: field_simps)
  have "\<lceil>- (d + 2 * pi) / (2 * pi)\<rceil> = \<lceil>- d / (2 * pi)\<rceil> - 1"
    by (simp only: eq ceiling_diff_one)
  moreover have "0 < \<lceil>- d / (2 * pi)\<rceil>" using pos by linarith
  ultimately have "nat \<lceil>- (d + 2 * pi) / (2 * pi)\<rceil> < nat \<lceil>- d / (2 * pi)\<rceil>"
    by linarith
  then show "(d + 2 * pi, d) \<in> measure (\<lambda>d. nat \<lceil>- d / (2 * pi)\<rceil>)"
    unfolding in_measure .
qed

function wrapDown :: "real \<Rightarrow> real" where
  "wrapDown d = (if 2 * pi < d then wrapDown (d - 2 * pi) else d)"
  by pat_completeness auto
termination
proof (relation "measure (\<lambda>d. nat \<lceil>d / (2 * pi)\<rceil>)")
  show "wf (measure (\<lambda>d. nat \<lceil>d / (2 * pi)\<rceil>))" by simp
next
  fix d :: real
  assume big: "2 * pi < d"
  have eq: "(d - 2 * pi) / (2 * pi) = d / (2 * pi) - 1"
    by (simp add: field_simps)
  have pos: "1 < d / (2 * pi)"
    using big pi_gt_zero by (simp add: field_simps)
  have "\<lceil>(d - 2 * pi) / (2 * pi)\<rceil> = \<lceil>d / (2 * pi)\<rceil> - 1"
    by (simp only: eq ceiling_diff_one)
  moreover have "0 < \<lceil>d / (2 * pi)\<rceil>" using pos by linarith
  ultimately have "nat \<lceil>(d - 2 * pi) / (2 * pi)\<rceil> < nat \<lceil>d / (2 * pi)\<rceil>"
    by linarith
  then show "(d - 2 * pi, d) \<in> measure (\<lambda>d. nat \<lceil>d / (2 * pi)\<rceil>)"
    unfolding in_measure .
qed

declare wrapUp.simps [simp del]
declare wrapDown.simps [simp del]

definition Number_EPSILON :: real where
  "Number_EPSILON = 1 / 2 ^ 52"

text \<open>
  The angle \<open>EllipseCurve.getPoint(t)\<close> evaluates the ellipse at.  With a finite
  \<open>deltaAngle\<close> the loops end; with NaN no comparison holds and the angle is NaN; on an
  infinite \<open>deltaAngle\<close> one of the loops never ends (\<open>None\<close>).
\<close>

definition finiteAngle :: "ellipseCurve \<Rightarrow> real \<Rightarrow> real \<Rightarrow> real" where
  "finiteAngle e d0 t =
     (let samePoints = (\<bar>d0\<bar> < Number_EPSILON);
          d1 = wrapDown (wrapUp d0);
          d2 = (if d1 < Number_EPSILON then (if samePoints then 0 else 2 * pi) else d1);
          d3 = (if aClockwise e \<and> \<not> samePoints
                then (if d2 = 2 * pi then - (2 * pi) else d2 - 2 * pi) else d2)
      in t * d3)"

definition EllipseCurve_angle :: "ellipseCurve \<Rightarrow> real \<Rightarrow> jsnum option" where
  "EllipseCurve_angle e t =
     (case js_sub (aEndAngle e) (aStartAngle e) of
        Fin d0 \<Rightarrow> Some (js_add (aStartAngle e) (Fin (finiteAngle e d0 t)))
      | NaN \<Rightarrow> Some NaN
      | PInf \<Rightarrow> None
      | NInf \<Rightarrow> None)"

definition EllipseCurve_getPoint :: "ellipseCurve \<Rightarrow> real \<Rightarrow> vec2 option" where
  "EllipseCurve_getPoint e t =
     (case EllipseCurve_angle e t of
        None \<Rightarrow> None
      | Some angle \<Rightarrow>
          let x = js_add (aX e) (js_mul (xRadius e) (Math_cos angle));
              y = js_add (aY e) (js_mul (yRadius e) (Math_sin angle))
          in if \<not> js_eq (aRotation e) (Fin 0)
             then let c = Math_cos (aRotation e); s = Math_sin (aRotation e);
                      tx = js_sub x (aX e); ty = js_sub y (aY e)
                  in Some (js_add (js_sub (js_mul tx c) (js_mul ty s)) (aX e),
                           js_add (js_add (js_mul tx s) (js_mul ty c)) (aY e))
             else Some (x, y))"

text \<open>\<open>getPoints\<close> of an ellipse: \<open>None\<close> when sampling some point never returns.\<close>

definition EllipseCurve_getPoints :: "ellipseCurve \<Rightarrow> nat \<Rightarrow> vec2 list option" where
  "EllipseCurve_getPoints e divisions =
     (let ps = Curve_getPoints (EllipseCurve_getPoint e) divisions
      in if list_ex (\<lambda>p. p = None) ps then None else Some (map the ps))"

section \<open>AdvancedSVGPathParser\<close>

record parser =
  currentX :: jsnum
  currentY :: jsnum
  startX :: jsnum
  startY :: jsnum
  subpathStartX :: jsnum
  subpathStartY :: jsnum
  lastControlX :: jsnum
  lastControlY :: jsnum

definition reset :: parser where
  "reset = \<lparr>currentX = Fin 0, currentY = Fin 0, startX = Fin 0, startY = Fin 0,
            subpathStartX = Fin 0, subpathStartY = Fin 0,
            lastControlX = Fin 0, lastControlY = Fin 0\<rparr>"

text \<open>
  Each handler takes the numbers after the command letter, whether the letter was upper
  case, and the parser fields together with the shape drawn so far.
\<close>

definition handleMoveTo :: "jsnum list \<Rightarrow> bool \<Rightarrow> parser \<times> shape \<Rightarrow> parser \<times> shape" where
  "handleMoveTo coords isAbsolute st =
     (let p = fst st; sh = snd st in
      if 2 \<le> length coords
      then let x = (if isAbsolute then coords ! 0 else js_add (currentX p) (coords ! 0));
               y = (if isAbsolute then coords ! 1 else js_add (currentY p) (coords ! 1))
           in (p\<lparr>currentX := x, currentY := y, subpathStartX := x, subpathStartY := y\<rparr>,
               moveTo x y sh)
      else st)"

definition handleLineTo :: "jsnum list \<Rightarrow> bool \<Rightarrow> parser \<times> shape \<Rightarrow> parser \<times> shape" where
  "handleLineTo coords isAbsolute st =
     (let p = fst st; sh = snd st in
      if 2 \<le> length coords
      then let x = (if isAbsolute then coords ! 0 else js_add (currentX p) (coords ! 0));
               y = (if isAbsolute then coords ! 1 else js_add (currentY p) (coords ! 1))
           in (p\<lparr>currentX := x, currentY := y\<rparr>, lineTo x y sh)
      else st)"

definition handleHorizontalLine :: "jsnum list \<Rightarrow> bool \<Rightarrow> parser \<times> shape \<Rightarrow> parser \<times> shape" where
  "handleHorizontalLine coords isAbsolute st =
     (let p = fst st; sh = snd st in
      if 1 \<le> length coords
      then let x = (if isAbsolute then coords ! 0 else js_add (currentX p) (coords ! 0))
           in (p\<lparr>currentX := x\<rparr>, lineTo x (currentY p) sh)
      else st)"

definition handleVerticalLine :: "jsnum list \<Rightarrow> bool \<Rightarrow> parser \<times> shape \<Rightarrow> parser \<times> shape" where
  "handleVerticalLine coords isAbsolute st =
     (let p = fst st; sh = snd st in
      if 1 \<le> length coords
      then let y = (if isAbsolute then coords ! 0 else js_add (currentY p) (coords ! 0))
           in (p\<lparr>currentY := y\<rparr>, lineTo (currentX p) y sh)
      else st)"

text \<open>\<open>isAbsolute ? coords[i] : this.currentX + coords[i]\<close> and its \<open>y\<close> twin.\<close>

definition resolveX :: "parser \<Rightarrow> bool \<Rightarrow> jsnum \<Rightarrow> jsnum" where
  "resolveX p isAbsolute c = (if isAbsolute then c else js_add (currentX p) c)"

definition resolveY :: "parser \<Rightarrow> bool \<Rightarrow> jsnum \<Rightarrow> jsnum" where
  "resolveY p isAbsolute c = (if isAbsolute then c else js_add (currentY p) c)"

definition handleCubicBezier :: "jsnum list \<Rightarrow> bool \<Rightarrow> parser \<times> shape \<Rightarrow> parser \<times> shape" where
  "handleCubicBezier coords isAbsolute st =
     (let p = fst st; sh = snd st in
      if 6 \<le> length coords
      then let cp1x = resolveX p isAbsolute (coords ! 0); cp1y = resolveY p isAbsolute (coords ! 1);
               cp2x = resolveX p isAbsolute (coords ! 2); cp2y = resolveY p isAbsolute (coords ! 3);
               endX = resolveX p isAbsolute (coords ! 4); endY = resolveY p isAbsolute (coords ! 5);
               points = Curve_getPoints
                  (CubicBezierCurve_getPoint (currentX p, currentY p) (cp1x, cp1y) (cp2x, cp2y) (endX, endY)) 50
           in (p\<lparr>currentX := endX, currentY := endY, lastControlX := cp2x, lastControlY := cp2y\<rparr>,
               lineToAll points sh)
      else st)"

text \<open>
  The first control point of a smooth command:
  \<open>this.currentX - (this.lastControlX - this.currentX)\<close>, and the same in \<open>y\<close>.
\<close>

definition reflectedControl :: "parser \<Rightarrow> vec2" where
  "reflectedControl p =
     (js_sub (currentX p) (js_sub (lastControlX p) (currentX p)),
      js_sub (currentY p) (js_sub (lastControlY p) (currentY p)))"

definition handleSmoothCubicBezier :: "jsnum list \<Rightarrow> bool \<Rightarrow> parser \<times> shape \<Rightarrow> parser \<times> shape" where
  "handleSmoothCubicBezier coords isAbsolute st =
     (let p = fst st; sh = snd st in
      if 4 \<le> length coords
      then let cp1 = reflectedControl p;
               cp2x = resolveX p isAbsolute (coords ! 0); cp2y = resolveY p isAbsolute (coords ! 1);
               endX = resolveX p isAbsolute (coords ! 2); endY = resolveY p isAbsolute (coords ! 3);
               points = Curve_getPoints
                  (CubicBezierCurve_getPoint (currentX p, currentY p) cp1 (cp2x, cp2y) (endX, endY)) 50
           in (p\<lparr>currentX := endX, currentY := endY, lastControlX := cp2x, lastControlY := cp2y\<rparr>,
               lineToAll points sh)
      else st)"

definition handleQuadraticBezier :: "jsnum list \<Rightarrow> bool \<Rightarrow> parser \<times> shape \<Rightarrow> parser \<times> shape" where
  "handleQuadraticBezier coords isAbsolute st =
     (let p = fst st; sh = snd st in
      if 4 \<le> length coords
      then let cpx = resolveX p isAbsolute (coords ! 0); cpy = resolveY p isAbsolute (coords ! 1);
               endX = resolveX p isAbsolute (coords ! 2); endY = resolveY p isAbsolute (coords ! 3);
               points = Curve_getPoints
                  (QuadraticBezierCurve_getPoint (currentX p, currentY p) (cpx, cpy) (endX, endY)) 30
           in (p\<lparr>currentX := endX, currentY := endY, lastControlX := cpx, lastControlY := cpy\<rparr>,
               lineToAll points sh)
      else st)"

definition handleSmoothQuadraticBezier :: "jsnum list \<Rightarrow> bool \<Rightarrow> parser \<times> shape \<Rightarrow> parser \<times> shape" where
  "handleSmoothQuadraticBezier coords isAbsolute st =
     (let p = fst st; sh = snd st in
      if 2 \<le> length coords
      then let cp = reflectedControl p;
               endX = resolveX p isAbsolute (coords ! 0); endY = resolveY p isAbsolute (coords ! 1);
               points = Curve_getPoints
                  (QuadraticBezierCurve_getPoint (currentX p, currentY p) cp (endX, endY)) 30
           in (p\<lparr>currentX := endX, currentY := endY, lastControlX := fst cp, lastControlY := snd cp\<rparr>,
               lineToAll points sh)
      else st)"

text \<open>
  \<open>createEllipticalArc\<close>.  Nothing inside its \<open>try\<close> block throws (arithmetic,
  \<open>Math.atan2\<close> and the \<open>EllipseCurve\<close> constructor never do), so the \<open>catch\<close> branch
  that returns \<open>null\<close> is never entered.  The rotation and the two flags are
  parameters the body does not read.
\<close>

definition createEllipticalArc ::
  "jsnum \<Rightarrow> jsnum \<Rightarrow> jsnum \<Rightarrow> jsnum \<Rightarrow> jsnum \<Rightarrow> jsnum \<Rightarrow> jsnum \<Rightarrow> bool \<Rightarrow> bool \<Rightarrow> ellipseCurve option" where
  "createEllipticalArc x1 y1 x2 y2 rx ry rotation largeArcFlag sweepFlag =
     (let centerX = js_div (js_add x1 x2) (Fin 2);
          centerY = js_div (js_add y1 y2) (Fin 2);
          startAngle = Math_atan2 (js_sub y1 centerY) (js_sub x1 centerX);
          endAngle = Math_atan2 (js_sub y2 centerY) (js_sub x2 centerX)
      in Some \<lparr>aX = centerX, aY = centerY, xRadius = rx, yRadius = ry,
               aStartAngle = startAngle, aEndAngle = endAngle,
               aClockwise = False, aRotation = Fin 0\<rparr>)"

definition handleArc :: "jsnum list \<Rightarrow> bool \<Rightarrow> parser \<times> shape \<Rightarrow> failure + parser \<times> shape" where
  "handleArc coords isAbsolute st =
     (let p = fst st; sh = snd st in
      if 7 \<le> length coords
      then let rx = coords ! 0; ry = coords ! 1;
               rotation = js_div (js_mul (coords ! 2) (Fin pi)) (Fin 180);
               largeArcFlag = (\<not> js_eq (coords ! 3) (Fin 0));
               sweepFlag = (\<not> js_eq (coords ! 4) (Fin 0));
               endX = resolveX p isAbsolute (coords ! 5); endY = resolveY p isAbsolute (coords ! 6)
           in (case createEllipticalArc (currentX p) (currentY p) endX endY rx ry rotation
                      largeArcFlag sweepFlag of
                 Some arc \<Rightarrow>
                   (case EllipseCurve_getPoints arc 50 of
                      None \<Rightarrow> Inl NoReturn
                    | Some points \<Rightarrow>
                        Inr (p\<lparr>currentX := endX, currentY := endY\<rparr>, lineToAll points sh))
               | None \<Rightarrow> Inr (p\<lparr>currentX := endX, currentY := endY\<rparr>, lineTo endX endY sh))
      else Inr st)"

definition handleClosePath :: "parser \<times> shape \<Rightarrow> failure + parser \<times> shape" where
  "handleClosePath st =
     (case closePath (snd st) of
        Inl e \<Rightarrow> Inl e
      | Inr sh \<Rightarrow> Inr ((fst st)\<lparr>currentX := subpathStartX (fst st),
                                 currentY := subpathStartY (fst st)\<rparr>, sh))"

text \<open>
  \<open>String.prototype.toLowerCase\<close> on one code unit: the ASCII capitals are mapped, every
  other code unit is left as it is (none of them is mapped to an ASCII letter).
\<close>

definition toLowerCase :: "char \<Rightarrow> char" where
  "toLowerCase c =
     (case map_of (zip ''ABCDEFGHIJKLMNOPQRSTUVWXYZ'' ''abcdefghijklmnopqrstuvwxyz'') c of
        None \<Rightarrow> c
      | Some l \<Rightarrow> l)"

text \<open>
  The \<open>switch\<close> of \<open>parseCommand\<close> once the letter and the numbers are known.  The
  \<open>default\<close> branch only writes to the console.
\<close>

definition dispatch :: "char \<Rightarrow> jsnum list \<Rightarrow> parser \<times> shape \<Rightarrow> failure + parser \<times> shape" where
  "dispatch type coords st =
     (let l = toLowerCase type in
      if l = CHR ''m'' then Inr (handleMoveTo coords (type = CHR ''M'') st)
      else if l = CHR ''l'' then Inr (handleLineTo coords (type = CHR ''L'') st)
      else if l = CHR ''h'' then Inr (handleHorizontalLine coords (type = CHR ''H'') st)
      else if l = CHR ''v'' then Inr (handleVerticalLine coords (type = CHR ''V'') st)
      else if l = CHR ''c'' then Inr (handleCubicBezier coords (type = CHR ''C'') st)
      else if l = CHR ''s'' then Inr (handleSmoothCubicBezier coords (type = CHR ''S'') st)
      else if l = CHR ''q'' then Inr (handleQuadraticBezier coords (type = CHR ''Q'') st)
      else if l = CHR ''t'' then Inr (handleSmoothQuadraticBezier coords (type = CHR ''T'') st)
      else if l = CHR ''a'' then handleArc coords (type = CHR ''A'') st
      else if l = CHR ''z'' then handleClosePath st
      else Inr st)"

text \<open>
  \<open>parseCommand\<close>: \<open>command[0]\<close> of an empty string is \<open>undefined\<close>, whose
  \<open>toLowerCase\<close> throws; the matches of the regular expression are never empty.
\<close>

definition parseCommand :: "string \<Rightarrow> parser \<times> shape \<Rightarrow> failure + parser \<times> shape" where
  "parseCommand command st =
     (case command of
        [] \<Rightarrow> Inl TypeError
      | type # rest \<Rightarrow> dispatch type (coordsOf rest) st)"

text \<open>The loop \<open>for (const command of commands) this.parseCommand(command, shape)\<close>.\<close>

fun runCommands :: "string list \<Rightarrow> parser \<times> shape \<Rightarrow> failure + parser \<times> shape" where
  "runCommands [] st = Inr st"
| "runCommands (command # commands) st =
     (case parseCommand command st of
        Inl e \<Rightarrow> Inl e
      | Inr st' \<Rightarrow> runCommands commands st')"

definition parsePath :: "string \<Rightarrow> failure + shape" where
  "parsePath pathData =
     (case runCommands (matchCommands pathData) (reset, newShape) of
        Inl e \<Rightarrow> Inl e
      | Inr st \<Rightarrow>
          if CHR ''Z'' \<notin> set pathData \<and> CHR ''z'' \<notin> set pathData
          then closePath (snd st)
          else Inr (snd st))"

section \<open>The simple parser parseSVGPath\<close>

text \<open>\<open>coords[i] || 0\<close>: a missing, NaN or zero entry gives \<open>0\<close>.\<close>

definition orZero :: "jsnum list \<Rightarrow> nat \<Rightarrow> jsnum" where
  "orZero coords i = (if i < length coords \<and> js_truthy (coords ! i) then coords ! i else Fin 0)"

text \<open>
  One round of the loop; the state is \<open>((currentX, currentY), (startX, startY))\<close> and the
  path drawn so far.
\<close>

definition simpleCommand :: "string \<Rightarrow> (vec2 \<times> vec2) \<times> shape \<Rightarrow> failure + (vec2 \<times> vec2) \<times> shape" where
  "simpleCommand command st =
     (case command of
        [] \<Rightarrow> Inl TypeError
      | type # rest \<Rightarrow>
          let coords = coordsOf rest; l = toLowerCase type;
              cx = fst (fst (fst st)); cy = snd (fst (fst st)); start = snd (fst st); path = snd st
          in if l = CHR ''m''
             then let x = (if type = CHR ''M'' then orZero coords 0 else js_add cx (orZero coords 0));
                      y = (if type = CHR ''M'' then orZero coords 1 else js_add cy (orZero coords 1))
                  in Inr (((x, y), (x, y)), moveTo x y path)
             else if l = CHR ''l''
             then (if 2 \<le> length coords
                   then let x = (if type = CHR ''L'' then coords ! 0 else js_add cx (coords ! 0));
                            y = (if type = CHR ''L'' then coords ! 1 else js_add cy (coords ! 1))
                        in Inr (((x, y), start), lineTo x y path)
                   else Inr st)
             else if l = CHR ''h''
             then let x = (if type = CHR ''H'' then orZero coords 0 else js_add cx (orZero coords 0))
                  in Inr (((x, cy), start), lineTo x cy path)
             else if l = CHR ''v''
             then let y = (if type = CHR ''V'' then orZero coords 0 else js_add cy (orZero coords 0))
                  in Inr (((cx, y), start), lineTo cx y path)
             else if l = CHR ''z''
             then (case closePath path of
                     Inl e \<Rightarrow> Inl e
                   | Inr path' \<Rightarrow> Inr ((start, start), path'))
             else (if 2 \<le> length coords
                   then Inr (((coords ! 0, coords ! 1), start), lineTo (coords ! 0) (coords ! 1) path)
                   else Inr st))"

fun simpleCommands :: "string list \<Rightarrow> (vec2 \<times> vec2) \<times> shape \<Rightarrow> failure + (vec2 \<times> vec2) \<times> shape" where
  "simpleCommands [] st = Inr st"
| "simpleCommands (command # commands) st =
     (case simpleCommand command st of
        Inl e \<Rightarrow> Inl e
      | Inr st' \<Rightarrow> simpleCommands commands st')"

definition parseSVGPath :: "string \<Rightarrow> shape \<Rightarrow> failure + shape" where
  "parseSVGPath pathData path =
     (case simpleCommands (matchCommands pathData) (((Fin 0, Fin 0), (Fin 0, Fin 0)), path) of
        Inl e \<Rightarrow> Inl e
      | Inr st \<Rightarrow>
          if CHR ''Z'' \<notin> set pathData \<and> CHR ''z'' \<notin> set pathData
          then closePath (snd st)
          else Inr (snd st))"

section \<open>analyzeShape and processAdvancedSVGFile\<close>

record boundingBox =
  bb_min :: vec2
  bb_max :: vec2
  bb_size :: vec2

record shapeAnalysis =
  boundingBox :: boundingBox
  complexity :: jsnum
  curveCount :: jsnum

definition isCurveLetter :: "char \<Rightarrow> bool" where
  "isCurveLetter c = (c \<in> set ''CcSsQqTtAa'')"

text \<open>\<open>(pathData.match(/[CcSsQqTtAa]/g) || []).length\<close>.\<close>

definition countCurveLetters :: "string \<Rightarrow> nat" where
  "countCurveLetters pathData = length (filter isCurveLetter pathData)"

definition analyzeShape :: "shape \<Rightarrow> string \<Rightarrow> shapeAnalysis" where
  "analyzeShape sh pathData =
     (let points = getPoints (Fin 100) sh;
          minX = foldl (\<lambda>m p. Math_min m (fst p)) PInf points;
          minY = foldl (\<lambda>m p. Math_min m (snd p)) PInf points;
          maxX = foldl (\<lambda>m p. Math_max m (fst p)) NInf points;
          maxY = foldl (\<lambda>m p. Math_max m (snd p)) NInf points;
          cc = Fin (real (countCurveLetters pathData))
      in \<lparr>boundingBox = \<lparr>bb_min = (minX, minY), bb_max = (maxX, maxY),
                           bb_size = (js_sub maxX minX, js_sub maxY minY)\<rparr>,
          complexity = js_add (Fin (real (length points))) (js_mul cc (Fin 10)),
          curveCount = cc\<rparr>)"

text \<open>An entry of \<open>individualShapes\<close> (the DOM element is left out).\<close>

record individualShape = shapeAnalysis +
  shape :: shape
  pathData :: string

text \<open>
  What \<open>SVGLoader.parse\<close> hands over for one path: no \<open>userData.node\<close>, or a node with
  or without a \<open>d\<close> attribute.
\<close>

datatype svgPath = NoNode | Node "string option"

text \<open>The \<open>data\<close> of a result (the SVG text and the metadata are left out).\<close>

record svgData =
  shapes :: "shape list"
  curves3 :: "vec2 list list"
  individualShapes :: "individualShape list"

text \<open>\<open>AdvancedProcessedSVGResult\<close>.\<close>

record processed =
  success :: bool
  data :: "svgData option"
  error :: "string option"

text \<open>
  The body of the loop over \<open>svgData.paths\<close>.  An exception of \<open>parsePath\<close> is caught
  inside the loop and only logged.  An empty \<open>d\<close> attribute is falsy.
\<close>

fun processPaths :: "svgPath list \<Rightarrow> svgData \<Rightarrow> failure + svgData" where
  "processPaths [] r = Inr r"
| "processPaths (NoNode # ps) r = processPaths ps r"
| "processPaths (Node None # ps) r = processPaths ps r"
| "processPaths (Node (Some d) # ps) r =
     (if d = [] then processPaths ps r
      else (case parsePath d of
              Inl NoReturn \<Rightarrow> Inl NoReturn
            | Inl TypeError \<Rightarrow> processPaths ps r
            | Inr sh \<Rightarrow>
                let a = analyzeShape sh d;
                    points = getPoints (Fin 100) sh
                in processPaths ps
                     (r\<lparr>shapes := shapes r @ [sh],
                        individualShapes := individualShapes r @
                          [\<lparr>boundingBox = boundingBox a, complexity = complexity a,
                            curveCount = curveCount a, shape = sh, pathData = d\<rparr>],
                        curves3 := (if 2 < length points then curves3 r @ [points]
                                    else curves3 r)\<rparr>)))"

definition fallbackShape :: "failure + shape" where
  "fallbackShape =
     closePath (lineTo (Fin (- 10)) (Fin 10) (lineTo (Fin 10) (Fin 10)
       (lineTo (Fin 10) (Fin (- 10)) (moveTo (Fin (- 10)) (Fin (- 10)) newShape))))"

text \<open>
  What the function meets before its loop.  Reading the file fails (\<open>reader.onerror\<close>);
  or the file is read and \<open>SVGLoader.parse\<close> or \<open>extractSVGMetadata\<close> throws, the
  exception printing as the given text (the outer \<open>catch\<close>); or both return and
  \<open>svgData.paths\<close> is the given list.  Which file texts make the library throw, and
  which lists it hands over, is the library's matter: every list is admitted here.
\<close>

datatype fileOutcome = ReadError | LoadThrows string | Loaded "svgPath list"

text \<open>
  \<open>processAdvancedSVGFile\<close>: what the promise resolves to.  An exception of the
  fallback's \<open>closePath\<close> would reach the outer \<open>catch\<close> as well.
\<close>

definition processAdvancedSVGFile :: "fileOutcome \<Rightarrow> failure + processed" where
  "processAdvancedSVGFile file =
     (case file of
        ReadError \<Rightarrow> Inr \<lparr>success = False, data = None, error = Some ''Failed to read file''\<rparr>
      | LoadThrows msg \<Rightarrow>
          Inr \<lparr>success = False, data = None,
               error = Some (''Advanced SVG processing failed: '' @ msg)\<rparr>
      | Loaded paths \<Rightarrow>
          (case processPaths paths \<lparr>shapes = [], curves3 = [], individualShapes = []\<rparr> of
             Inl e \<Rightarrow> Inl e
           | Inr r \<Rightarrow>
               if shapes r = []
               then (case fallbackShape of
                       Inl e \<Rightarrow>
                         Inr \<lparr>success = False, data = None,
                              error = Some ''Advanced SVG processing failed: TypeError''\<rparr>
                     | Inr sq \<Rightarrow> Inr \<lparr>success = True, data = Some (r\<lparr>shapes := [sq]\<rparr>), error = None\<rparr>)
               else Inr \<lparr>success = True, data = Some r, error = None\<rparr>))"

section \<open>Detail settings for the zoomed view\<close>

record detailedShapeSettings =
  resolution :: jsnum
  extrudeDepth :: jsnum
  bevelEnabled :: bool
  bevelThickness :: jsnum
  bevelSize :: jsnum
  bevelSegments :: jsnum
  curveSegments :: jsnum
  steps :: jsnum

record zoomAnalysis =
  zoomShape :: individualShape
  optimalSettings :: detailedShapeSettings
  isComplex :: bool
  hasManyCurves :: bool
  diagonal :: jsnum

text \<open>The settings \<open>analyzeShapeForZoom\<close> computes for one entry of \<open>individualShapes\<close>.\<close>

definition optimalSettingsOf :: "individualShape \<Rightarrow> detailedShapeSettings" where
  "optimalSettingsOf s =
     \<lparr>resolution = Math_max (Fin 50) (Math_min (Fin 200) (js_div (complexity s) (Fin 10))),
      extrudeDepth = Math_max (Fin (1 / 2))
         (Math_min (Fin 5) (js_div (Vector2_length (bb_size (boundingBox s))) (Fin 20))),
      bevelEnabled = js_gt (curveCount s) (Fin 5),
      bevelThickness = (if js_gt (curveCount s) (Fin 10) then Fin (3 / 10) else Fin (1 / 10)),
      bevelSize = (if js_gt (curveCount s) (Fin 10) then Fin (2 / 10) else Fin (5 / 100)),
      bevelSegments = Math_max (Fin 2) (Math_min (Fin 8) (js_div (curveCount s) (Fin 2))),
      curveSegments = Math_max (Fin 32) (Math_min (Fin 128) (js_div (complexity s) (Fin 5))),
      steps = Math_max (Fin 1) (Math_min (Fin 4) (Math_floor (js_div (complexity s) (Fin 50))))\<rparr>"

text \<open>
  \<open>analyzeShapeForZoom\<close>: \<open>null\<close> when the index is not below the length; a negative
  index reads \<open>undefined\<close> and the first property access on it throws.
\<close>

definition analyzeShapeForZoom :: "individualShape list \<Rightarrow> int \<Rightarrow> failure + zoomAnalysis option" where
  "analyzeShapeForZoom individuals shapeIndex =
     (if int (length individuals) \<le> shapeIndex then Inr None
      else if shapeIndex < 0 then Inl TypeError
      else let s = individuals ! nat shapeIndex
           in Inr (Some \<lparr>zoomShape = s, optimalSettings = optimalSettingsOf s,
                          isComplex = js_gt (complexity s) (Fin 100),
                          hasManyCurves = js_gt (curveCount s) (Fin 5),
                          diagonal = Vector2_length (bb_size (boundingBox s))\<rparr>))"

text \<open>The settings of one rung of \<open>createProgressiveDetailLevels\<close>.\<close>

definition levelSettings :: "detailedShapeSettings \<Rightarrow> real \<Rightarrow> detailedShapeSettings" where
  "levelSettings opt multiplier =
     \<lparr>resolution = Math_floor (js_mul (resolution opt) (Fin multiplier)),
      extrudeDepth = extrudeDepth opt,
      bevelEnabled = bevelEnabled opt,
      bevelThickness = bevelThickness opt,
      bevelSize = bevelSize opt,
      bevelSegments = bevelSegments opt,
      curveSegments = Math_floor (js_mul (curveSegments opt) (Fin multiplier)),
      steps = Math_max (Fin 1) (Math_floor (js_mul (steps opt) (Fin multiplier)))\<rparr>"

text \<open>The complexity \<open>createDetailedShape\<close> reports for a shape and its settings.\<close>

definition detailedComplexity :: "shape \<Rightarrow> detailedShapeSettings \<Rightarrow> jsnum" where
  "detailedComplexity sh settings =
     js_add (Fin (real (length (getPoints (resolution settings) sh))))
            (js_mul (curveSegments settings) (Fin 10))"

definition levels :: "(nat \<times> real) list" where
  "levels = [(1, 1 / 2), (2, 1), (3, 2), (4, 4)]"

text \<open>
  \<open>createProgressiveDetailLevels\<close>: level number and settings of each rung (the extruded
  geometry built from them is left out).
\<close>

definition createProgressiveDetailLevels ::
  "individualShape list \<Rightarrow> int \<Rightarrow> failure + (nat \<times> detailedShapeSettings) list" where
  "createProgressiveDetailLevels individuals shapeIndex =
     (case analyzeShapeForZoom individuals shapeIndex of
        Inl e \<Rightarrow> Inl e
      | Inr None \<Rightarrow> Inr []
      | Inr (Some analysis) \<Rightarrow>
          Inr (map (\<lambda>lm. (fst lm, levelSettings (optimalSettings analysis) (snd lm))) levels))"

section \<open>Auxiliary notions for the statements\<close>

text \<open>
  The number of coordinates the handler of a command letter reads: the bound of the
  \<open>coords.length >= n\<close> test that guards its body (\<open>0\<close> for \<open>Z\<close> and for a letter
  without a handler).
\<close>

definition groupSize :: "char \<Rightarrow> nat" where
  "groupSize type =
     (let l = toLowerCase type in
      if l = CHR ''m'' \<or> l = CHR ''l'' \<or> l = CHR ''t'' then 2
      else if l = CHR ''h'' \<or> l = CHR ''v'' then 1
      else if l = CHR ''c'' then 6
      else if l = CHR ''s'' \<or> l = CHR ''q'' then 4
      else if l = CHR ''a'' then 7
      else 0)"

text \<open>
  The specification's \<open>clamp(x, lo, hi)\<close>, written from its words: \<open>lo\<close> below \<open>lo\<close>,
  \<open>hi\<close> above \<open>hi\<close>, \<open>x\<close> otherwise.
\<close>

definition clamp :: "jsnum \<Rightarrow> jsnum \<Rightarrow> jsnum \<Rightarrow> jsnum" where
  "clamp x lo hi = (if js_lt x lo then lo else if js_gt x hi then hi else x)"


text \<open>
  The entry of \<open>individualShapes\<close> one path of \<open>svgData.paths\<close> gives rise to, if any: a
  node with a non-empty \<open>d\<close> attribute that \<open>parsePath\<close> turns into a shape.
\<close>

definition parsedEntry :: "svgPath \<Rightarrow> individualShape option" where
  "parsedEntry p =
     (case p of
        NoNode \<Rightarrow> None
      | Node None \<Rightarrow> None
      | Node (Some d) \<Rightarrow>
          if d = [] then None
          else (case parsePath d of
                  Inl e \<Rightarrow> None
                | Inr sh \<Rightarrow>
                    Some \<lparr>boundingBox = boundingBox (analyzeShape sh d),
                          complexity = complexity (analyzeShape sh d),
                          curveCount = curveCount (analyzeShape sh d),
                          shape = sh, pathData = d\<rparr>))"

text \<open>
  The complexity \<open>processAdvancedSVGFile\<close> records for a path text: that of
  \<open>analyzeShape\<close> on the shape \<open>parsePath\<close> returns and the text itself.
\<close>

definition pathComplexity :: "string \<Rightarrow> failure + jsnum" where
  "pathComplexity d =
     (case parsePath d of
        Inl e \<Rightarrow> Inl e
      | Inr sh \<Rightarrow> Inr (complexity (analyzeShape sh d)))"

text \<open>
  Two entries of \<open>individualShapes\<close> for the examples below: one with ten thousand curve
  commands, one with five.
\<close>

definition adversarialEntry :: individualShape where
  "adversarialEntry =
     \<lparr>boundingBox = \<lparr>bb_min = (Fin 0, Fin 0), bb_max = (Fin 0, Fin 0), bb_size = (Fin 0, Fin 0)\<rparr>,
      complexity = Fin 100010, curveCount = Fin 10000, shape = newShape, pathData = []\<rparr>"

definition fiveCurveEntry :: individualShape where
  "fiveCurveEntry =
     \<lparr>boundingBox = \<lparr>bb_min = (Fin 0, Fin 0), bb_max = (Fin 0, Fin 0), bb_size = (Fin 0, Fin 0)\<rparr>,
      complexity = Fin 60, curveCount = Fin 5, shape = newShape, pathData = []\<rparr>"

section \<open>Facts about the tokenizer\<close>

lemmas token_eval = coordsOf_def js_Number_def isSeparator_def isSpace_def trim_def
  radixLiteral_def isDigitIn_def digitOf_def splitSign_def decimalLiteral_def
  exponentPart_def scale10_def digitsValue_def isCommandLetter_def

lemmas shape_eval = newShape_def moveTo_def lineTo_def closePath_def LineCurve_getPoint_def
  Vector2_equals_def js_eq_def js_sub_def

lemmas parser_eval = parsePath_def parseCommand_def dispatch_def toLowerCase_def reset_def
  handleMoveTo_def handleLineTo_def handleHorizontalLine_def handleVerticalLine_def
  handleClosePath_def Let_def

lemma matchCommands_heads:
  "c \<in> set (matchCommands s) \<Longrightarrow> c \<noteq> [] \<and> isCommandLetter (hd c)"
  by (induction s rule: matchCommands.induct) (auto split: if_splits)

lemma concat_matchCommands:
  "concat (matchCommands s) = dropWhile (\<lambda>x. \<not> isCommandLetter x) s"
  by (induction s rule: matchCommands.induct) simp_all

lemma toLowerCase_supported:
  "toLowerCase t \<in> set ''mlhvcsqtaz'' \<longleftrightarrow> isCommandLetter t"
  by (auto simp: toLowerCase_def isCommandLetter_def)

lemma dispatch_unsupported:
  assumes "\<not> isCommandLetter t"
  shows "dispatch t cs st = Inr st"
proof -
  have "toLowerCase t \<notin> set ''mlhvcsqtaz''"
    using assms by (simp only: toLowerCase_supported not_False_eq_True)
  then show ?thesis
    by (simp add: dispatch_def Let_def)
qed

lemma curve_is_command: "isCurveLetter c \<Longrightarrow> isCommandLetter c"
  by (auto simp: isCurveLetter_def isCommandLetter_def)

lemma filter_curve_dropWhile:
  "filter isCurveLetter (dropWhile (\<lambda>x. \<not> isCommandLetter x) s) = filter isCurveLetter s"
  by (induction s) (auto dest: curve_is_command)

lemma filter_curve_takeWhile:
  "filter isCurveLetter (takeWhile (\<lambda>x. \<not> isCommandLetter x) s) = []"
  by (induction s) (auto dest: curve_is_command)

lemma count_curve_commands:
  "length (filter (\<lambda>c. isCurveLetter (hd c)) (matchCommands s)) = countCurveLetters s"
proof (induction s rule: matchCommands.induct)
  case 1
  show ?case by (simp add: countCurveLetters_def)
next
  case (2 c cs)
  show ?case
  proof (cases "isCommandLetter c")
    case True
    with 2 show ?thesis
      by (simp add: countCurveLetters_def filter_curve_dropWhile)
  next
    case False
    then have "\<not> isCurveLetter c" using curve_is_command by blast
    with False 2 show ?thesis
      by (simp add: countCurveLetters_def)
  qed
qed

section \<open>Unsupported command letters\<close>

text \<open>
  C1, as stated, fails.  \<open>parsePath\<close> has no failure for an unsupported letter.  A path
  holding the letter \<open>B\<close> parses to a shape: the text \<open>B10,10\<close> stays in the arguments of
  the \<open>M\<close> before it, which reads its first two numbers only, so \<open>M0,0 B10,10\<close> behaves
  as \<open>M0,0\<close> does.  The simple parser \<open>parseSVGPath\<close> does the same.
\<close>

theorem C1_counterexample:
  "parsePath ''M0,0 B10,10 L20,20'' =
     Inr \<lparr>curves = [((Fin 0, Fin 0), (Fin 20, Fin 20)), ((Fin 20, Fin 20), (Fin 0, Fin 0))],
          currentPoint = (Fin 20, Fin 20)\<rparr>
   \<and> parsePath ''M0,0 B10,10'' = parsePath ''M0,0''
   \<and> parseSVGPath ''M0,0 B10,10 L20,20'' newShape =
     Inr \<lparr>curves = [((Fin 0, Fin 0), (Fin 20, Fin 20)), ((Fin 20, Fin 20), (Fin 0, Fin 0))],
          currentPoint = (Fin 20, Fin 20)\<rparr>"
  by (simp add: token_eval shape_eval parser_eval parseSVGPath_def simpleCommand_def
        orZero_def js_truthy_def)

text \<open>
  C1, amended.  The tokenizer starts a command only at one of the twenty supported
  letters: every command it yields is non-empty and begins with a supported letter, and
  the commands together are the whole input from its first supported letter on, so any
  other letter is kept inside the argument text of the command before it (text before
  the first supported letter is dropped).  The unsupported-letter branch of
  \<open>parseCommand\<close> returns the state unchanged; it raises nothing.
\<close>

theorem C1_unsupported_letters_absorbed:
  "(\<forall>c \<in> set (matchCommands s). c \<noteq> [] \<and> isCommandLetter (hd c))
   \<and> concat (matchCommands s) = dropWhile (\<lambda>x. \<not> isCommandLetter x) s
   \<and> (\<not> isCommandLetter t \<longrightarrow> parseCommand (t # rest) st = Inr st)"
  using matchCommands_heads concat_matchCommands dispatch_unsupported
  by (simp add: parseCommand_def)

text \<open>The amended C1 at the input \<open>M0,0 B10,10\<close> and the command text \<open>B10,10\<close>.\<close>

theorem C1_witness:
  "matchCommands ''M0,0 B10,10'' = [''M0,0 B10,10'']
   \<and> isCommandLetter (CHR ''M'') \<and> \<not> isCommandLetter (CHR ''B'')
   \<and> parseCommand ''B10,10'' (reset, newShape) = Inr (reset, newShape)"
  using C1_unsupported_letters_absorbed
    [of "''M0,0 B10,10''" "CHR ''B''" "''10,10''" "(reset, newShape)"]
  by (simp add: isCommandLetter_def)

section \<open>Argument groups after one command letter\<close>

lemma handleMoveTo_take:
  "2 \<le> length cs \<Longrightarrow> handleMoveTo (take 2 cs) a st = handleMoveTo cs a st"
  by (simp add: handleMoveTo_def Let_def)

lemma handleLineTo_take:
  "2 \<le> length cs \<Longrightarrow> handleLineTo (take 2 cs) a st = handleLineTo cs a st"
  by (simp add: handleLineTo_def Let_def)

lemma handleHorizontalLine_take:
  "Suc 0 \<le> length cs \<Longrightarrow> handleHorizontalLine (take (Suc 0) cs) a st = handleHorizontalLine cs a st"
  by (simp add: handleHorizontalLine_def Let_def)

lemma handleVerticalLine_take:
  "Suc 0 \<le> length cs \<Longrightarrow> handleVerticalLine (take (Suc 0) cs) a st = handleVerticalLine cs a st"
  by (simp add: handleVerticalLine_def Let_def)

lemma handleCubicBezier_take:
  "6 \<le> length cs \<Longrightarrow> handleCubicBezier (take 6 cs) a st = handleCubicBezier cs a st"
  by (simp add: handleCubicBezier_def Let_def)

lemma handleSmoothCubicBezier_take:
  "4 \<le> length cs \<Longrightarrow> handleSmoothCubicBezier (take 4 cs) a st = handleSmoothCubicBezier cs a st"
  by (simp add: handleSmoothCubicBezier_def Let_def)

lemma handleQuadraticBezier_take:
  "4 \<le> length cs \<Longrightarrow> handleQuadraticBezier (take 4 cs) a st = handleQuadraticBezier cs a st"
  by (simp add: handleQuadraticBezier_def Let_def)

lemma handleSmoothQuadraticBezier_take:
  "2 \<le> length cs \<Longrightarrow>
   handleSmoothQuadraticBezier (take 2 cs) a st = handleSmoothQuadraticBezier cs a st"
  by (simp add: handleSmoothQuadraticBezier_def Let_def)

lemma handleArc_take:
  "7 \<le> length cs \<Longrightarrow> handleArc (take 7 cs) a st = handleArc cs a st"
  by (simp add: handleArc_def Let_def)

lemmas handler_take = handleMoveTo_take handleLineTo_take handleHorizontalLine_take
  handleVerticalLine_take handleCubicBezier_take handleSmoothCubicBezier_take
  handleQuadraticBezier_take handleSmoothQuadraticBezier_take handleArc_take

text \<open>
  C2, as stated, fails.  One \<open>L\<close> followed by three coordinate pairs draws one line, to
  the first pair; with the closing line the shape has two segments, not four.
\<close>

theorem C2_counterexample:
  "parsePath ''M0,0 L10,0 10,10 0,10'' =
     Inr \<lparr>curves = [((Fin 0, Fin 0), (Fin 10, Fin 0)), ((Fin 10, Fin 0), (Fin 0, Fin 0))],
          currentPoint = (Fin 10, Fin 0)\<rparr>"
  by (simp add: token_eval shape_eval parser_eval)

text \<open>
  C2, amended.  A command letter followed by at least one full group of numbers is
  handled once, from its first group alone: every number after the first group is
  ignored, so dropping those numbers changes nothing.
\<close>

theorem C2_only_first_group_used:
  assumes "groupSize t \<le> length cs"
  shows "dispatch t (take (groupSize t) cs) st = dispatch t cs st"
proof -
  define l where "l = toLowerCase t"
  consider "l = CHR ''m''" | "l = CHR ''l''" | "l = CHR ''h''" | "l = CHR ''v''" | "l = CHR ''c''"
    | "l = CHR ''s''" | "l = CHR ''q''" | "l = CHR ''t''" | "l = CHR ''a''"
    | "l \<notin> set ''mlhvcsqta''"
    by auto
  then show ?thesis
    using assms
    by cases (simp_all add: dispatch_def groupSize_def l_def [symmetric] handler_take)
qed

text \<open>The amended C2 at an \<open>L\<close> with three coordinate pairs.\<close>

theorem C2_witness:
  "groupSize (CHR ''L'') = 2 \<and>
   dispatch (CHR ''L'') [Fin 10, Fin 0] (reset, newShape) =
   dispatch (CHR ''L'') [Fin 10, Fin 0, Fin 10, Fin 10, Fin 0, Fin 10] (reset, newShape)"
  using C2_only_first_group_used
    [of "CHR ''L''" "[Fin 10, Fin 0, Fin 10, Fin 10, Fin 0, Fin 10]" "(reset, newShape)"]
  by (simp add: groupSize_def toLowerCase_def)

section \<open>The control point of the smooth commands\<close>

lemma handleArc_lastControl:
  "handleArc cs a (p, sh) = Inr (p', sh') \<Longrightarrow>
   lastControlX p' = lastControlX p \<and> lastControlY p' = lastControlY p"
  by (auto simp: handleArc_def Let_def createEllipticalArc_def split: if_splits option.splits)

lemma handleClosePath_lastControl:
  "handleClosePath (p, sh) = Inr (p', sh') \<Longrightarrow>
   lastControlX p' = lastControlX p \<and> lastControlY p' = lastControlY p"
  by (auto simp: handleClosePath_def split: sum.splits)

lemma dispatch_keeps_lastControl:
  assumes "toLowerCase t \<notin> set ''csqt''" and "dispatch t cs (p, sh) = Inr (p', sh')"
  shows "lastControlX p' = lastControlX p \<and> lastControlY p' = lastControlY p"
proof -
  define l where "l = toLowerCase t"
  consider "l = CHR ''m''" | "l = CHR ''l''" | "l = CHR ''h''" | "l = CHR ''v''"
    | "l = CHR ''a''" | "l = CHR ''z''" | "l \<notin> set ''mlhvcsqtaz''"
    using assms(1) unfolding l_def by auto
  then show ?thesis
  proof cases
    case 5
    then show ?thesis
      using assms(2) handleArc_lastControl
      by (simp add: dispatch_def l_def [symmetric])
  next
    case 6
    then show ?thesis
      using assms(2) handleClosePath_lastControl
      by (simp add: dispatch_def l_def [symmetric])
  qed (insert assms(2), auto simp: dispatch_def l_def [symmetric] handleMoveTo_def
        handleLineTo_def handleHorizontalLine_def handleVerticalLine_def Let_def split: if_splits)
qed

text \<open>
  C3, as stated, fails.  After \<open>M0,0 C10,0 10,10 0,10 L5,5\<close> the current point is
  \<open>(5, 5)\<close> and the stored control point is still \<open>(10, 10)\<close>, the second control point
  of the \<open>C\<close>: the \<open>L\<close> did not reset it.  An \<open>S20,0 30,10\<close> handled in that state
  draws the cubic from \<open>(5, 5)\<close> with first control point \<open>(0, 0)\<close>, not the current
  point \<open>(5, 5)\<close>.
\<close>

theorem C3_counterexample:
  "map_sum id fst (runCommands (matchCommands ''M0,0 C10,0 10,10 0,10 L5,5'') (reset, newShape)) =
     Inr \<lparr>currentX = Fin 5, currentY = Fin 5, startX = Fin 0, startY = Fin 0,
          subpathStartX = Fin 0, subpathStartY = Fin 0,
          lastControlX = Fin 10, lastControlY = Fin 10\<rparr>
   \<and> handleSmoothCubicBezier [Fin 20, Fin 0, Fin 30, Fin 10] True
        (\<lparr>currentX = Fin 5, currentY = Fin 5, startX = Fin 0, startY = Fin 0,
          subpathStartX = Fin 0, subpathStartY = Fin 0,
          lastControlX = Fin 10, lastControlY = Fin 10\<rparr>, newShape) =
       (\<lparr>currentX = Fin 30, currentY = Fin 10, startX = Fin 0, startY = Fin 0,
          subpathStartX = Fin 0, subpathStartY = Fin 0,
          lastControlX = Fin 20, lastControlY = Fin 0\<rparr>,
        lineToAll (Curve_getPoints (CubicBezierCurve_getPoint (Fin 5, Fin 5) (Fin 0, Fin 0)
           (Fin 20, Fin 0) (Fin 30, Fin 10)) 50) newShape)"
  by (simp add: token_eval parser_eval handleCubicBezier_def handleSmoothCubicBezier_def
        resolveX_def resolveY_def reflectedControl_def js_sub_def)

text \<open>
  C3, amended.  The first control point of an \<open>S\<close> or \<open>T\<close> command with enough numbers
  is \<open>current - (lastControl - current)\<close> in each coordinate, which is
  \<open>current * 2 - lastControl\<close> on finite numbers.  Here \<open>lastControl\<close> is the point the
  parser has stored: the second control point of the latest \<open>C\<close> or \<open>S\<close>, or the control
  point of the latest \<open>Q\<close> or \<open>T\<close>, whichever command came last and whatever its
  family; \<open>(0, 0)\<close> at the start of a parse.  No other command (\<open>M\<close>, \<open>L\<close>, \<open>H\<close>,
  \<open>V\<close>, \<open>A\<close>, \<open>Z\<close>, or a letter without a handler) changes the stored point.
\<close>

theorem C3_reflection_of_stored_control:
  "reflectedControl p =
     (js_sub (currentX p) (js_sub (lastControlX p) (currentX p)),
      js_sub (currentY p) (js_sub (lastControlY p) (currentY p)))
   \<and> (4 \<le> length cs \<longrightarrow>
        handleSmoothCubicBezier cs a (p, sh) =
          (p\<lparr>currentX := resolveX p a (cs ! 2), currentY := resolveY p a (cs ! 3),
             lastControlX := resolveX p a (cs ! 0), lastControlY := resolveY p a (cs ! 1)\<rparr>,
           lineToAll (Curve_getPoints (CubicBezierCurve_getPoint (currentX p, currentY p)
              (reflectedControl p) (resolveX p a (cs ! 0), resolveY p a (cs ! 1))
              (resolveX p a (cs ! 2), resolveY p a (cs ! 3))) 50) sh))
   \<and> (2 \<le> length cs \<longrightarrow>
        handleSmoothQuadraticBezier cs a (p, sh) =
          (p\<lparr>currentX := resolveX p a (cs ! 0), currentY := resolveY p a (cs ! 1),
             lastControlX := fst (reflectedControl p), lastControlY := snd (reflectedControl p)\<rparr>,
           lineToAll (Curve_getPoints (QuadraticBezierCurve_getPoint (currentX p, currentY p)
              (reflectedControl p) (resolveX p a (cs ! 0), resolveY p a (cs ! 1))) 30) sh))
   \<and> (6 \<le> length cs \<longrightarrow>
        lastControlX (fst (handleCubicBezier cs a (p, sh))) = resolveX p a (cs ! 2) \<and>
        lastControlY (fst (handleCubicBezier cs a (p, sh))) = resolveY p a (cs ! 3))
   \<and> (4 \<le> length cs \<longrightarrow>
        lastControlX (fst (handleQuadraticBezier cs a (p, sh))) = resolveX p a (cs ! 0) \<and>
        lastControlY (fst (handleQuadraticBezier cs a (p, sh))) = resolveY p a (cs ! 1))
   \<and> (toLowerCase t \<notin> set ''csqt'' \<and> dispatch t cs' (p, sh) = Inr (p', sh') \<longrightarrow>
        lastControlX p' = lastControlX p \<and> lastControlY p' = lastControlY p)
   \<and> (currentX p = Fin cx \<and> currentY p = Fin cy \<and> lastControlX p = Fin lx \<and> lastControlY p = Fin ly
        \<longrightarrow> reflectedControl p = (Fin (2 * cx - lx), Fin (2 * cy - ly)))
   \<and> lastControlX reset = Fin 0 \<and> lastControlY reset = Fin 0"
  using dispatch_keeps_lastControl [of t cs' p sh p' sh']
  by (simp add: reflectedControl_def js_sub_def handleSmoothCubicBezier_def handleSmoothQuadraticBezier_def
        handleCubicBezier_def handleQuadraticBezier_def Let_def reset_def)

text \<open>
  The amended C3 at the state after \<open>M0,0 C10,0 10,10 0,10\<close>, for an \<open>S\<close> with the
  numbers \<open>-10 20 0 30 1 1\<close> and for an \<open>L5,5\<close>.
\<close>

theorem C3_witness:
  "reflectedControl \<lparr>currentX = Fin 0, currentY = Fin 10, startX = Fin 0, startY = Fin 0,
       subpathStartX = Fin 0, subpathStartY = Fin 0, lastControlX = Fin 10, lastControlY = Fin 10\<rparr>
     = (Fin (- 10), Fin 10)
   \<and> handleSmoothCubicBezier [Fin (- 10), Fin 20, Fin 0, Fin 30, Fin 1, Fin 1] True
       (\<lparr>currentX = Fin 0, currentY = Fin 10, startX = Fin 0, startY = Fin 0,
         subpathStartX = Fin 0, subpathStartY = Fin 0, lastControlX = Fin 10, lastControlY = Fin 10\<rparr>,
        newShape) =
       (\<lparr>currentX = Fin 0, currentY = Fin 30, startX = Fin 0, startY = Fin 0,
         subpathStartX = Fin 0, subpathStartY = Fin 0,
         lastControlX = Fin (- 10), lastControlY = Fin 20\<rparr>,
        lineToAll (Curve_getPoints (CubicBezierCurve_getPoint (Fin 0, Fin 10) (Fin (- 10), Fin 10)
           (Fin (- 10), Fin 20) (Fin 0, Fin 30)) 50) newShape)
   \<and> dispatch (CHR ''L'') [Fin 5, Fin 5]
       (\<lparr>currentX = Fin 0, currentY = Fin 10, startX = Fin 0, startY = Fin 0,
         subpathStartX = Fin 0, subpathStartY = Fin 0, lastControlX = Fin 10, lastControlY = Fin 10\<rparr>,
        newShape) =
       Inr (\<lparr>currentX = Fin 5, currentY = Fin 5, startX = Fin 0, startY = Fin 0,
         subpathStartX = Fin 0, subpathStartY = Fin 0, lastControlX = Fin 10, lastControlY = Fin 10\<rparr>,
        lineTo (Fin 5) (Fin 5) newShape)"
  using C3_reflection_of_stored_control
    [where p = "\<lparr>currentX = Fin 0, currentY = Fin 10, startX = Fin 0, startY = Fin 0,
         subpathStartX = Fin 0, subpathStartY = Fin 0, lastControlX = Fin 10, lastControlY = Fin 10\<rparr>"
       and cs = "[Fin (- 10), Fin 20, Fin 0, Fin 30, Fin 1, Fin 1]" and a = True and sh = newShape
       and t = "CHR ''L''" and cs' = "[Fin 5, Fin 5]"
       and p' = "\<lparr>currentX = Fin 5, currentY = Fin 5, startX = Fin 0, startY = Fin 0,
         subpathStartX = Fin 0, subpathStartY = Fin 0, lastControlX = Fin 10, lastControlY = Fin 10\<rparr>"
       and sh' = "lineTo (Fin 5) (Fin 5) newShape"
       and cx = 0 and cy = 10 and lx = 10 and ly = 10]
  by (simp add: resolveX_def resolveY_def dispatch_def toLowerCase_def handleLineTo_def Let_def
        reflectedControl_def js_sub_def)

section \<open>Closing the path\<close>









section \<open>Elliptical arcs\<close>

text \<open>
  C10.  Two arc commands that agree on radii and end point (and start from the same
  state) give the same result whatever their rotation, large-arc flag and sweep flag
  are, and whatever follows the seventh number.  The ellipse built is centred at the
  midpoint of start and end, counter-clockwise, with rotation \<open>0\<close>.
\<close>

theorem C10_arc_ignores_flags_and_rotation:
  "handleArc (rx # ry # rot # large # sweep # ex # ey # rest) a st =
   handleArc (rx # ry # rot' # large' # sweep' # ex # ey # rest') a st
   \<and> createEllipticalArc x1 y1 x2 y2 rx ry rotation largeArcFlag sweepFlag =
       Some \<lparr>aX = js_div (js_add x1 x2) (Fin 2), aY = js_div (js_add y1 y2) (Fin 2),
             xRadius = rx, yRadius = ry,
             aStartAngle = Math_atan2 (js_sub y1 (js_div (js_add y1 y2) (Fin 2)))
                                      (js_sub x1 (js_div (js_add x1 x2) (Fin 2))),
             aEndAngle = Math_atan2 (js_sub y2 (js_div (js_add y1 y2) (Fin 2)))
                                    (js_sub x2 (js_div (js_add x1 x2) (Fin 2))),
             aClockwise = False, aRotation = Fin 0\<rparr>"
  by (simp add: handleArc_def createEllipticalArc_def Let_def)

text \<open>
  Sampling the ellipse \<open>createEllipticalArc\<close> builds always returns, since \<open>Math.atan2\<close>
  gives no infinite angle; hence the arc handler returns, and so does a parse.
\<close>

lemma atan2_not_infinite: "Math_atan2 y x \<noteq> PInf \<and> Math_atan2 y x \<noteq> NInf"
  by (cases y; cases x) simp_all

lemma angle_returns:
  assumes "aStartAngle e \<noteq> PInf \<and> aStartAngle e \<noteq> NInf"
    and "aEndAngle e \<noteq> PInf \<and> aEndAngle e \<noteq> NInf"
  shows "EllipseCurve_angle e t \<noteq> None"
  using assms
  by (cases "aStartAngle e"; cases "aEndAngle e") (simp_all add: EllipseCurve_angle_def js_sub_def)

lemma getPoint_returns:
  assumes "EllipseCurve_angle e t \<noteq> None"
  shows "EllipseCurve_getPoint e t \<noteq> None"
  using assms by (auto simp: EllipseCurve_getPoint_def Let_def)

lemma getPoints_returns:
  assumes "\<And>t. EllipseCurve_getPoint e t \<noteq> None"
  shows "EllipseCurve_getPoints e n \<noteq> None"
proof -
  have "None \<noteq> EllipseCurve_getPoint e t" for t
    using assms [of t] by auto
  then show ?thesis
    by (auto simp: EllipseCurve_getPoints_def Curve_getPoints_def Let_def list_ex_iff)
qed

lemma created_arc_returns:
  assumes "createEllipticalArc x1 y1 x2 y2 rx ry rot la sw = Some arc"
  shows "EllipseCurve_getPoints arc n \<noteq> None"
proof -
  from assms have "aStartAngle arc \<noteq> PInf \<and> aStartAngle arc \<noteq> NInf"
    and "aEndAngle arc \<noteq> PInf \<and> aEndAngle arc \<noteq> NInf"
    using atan2_not_infinite by (auto simp: createEllipticalArc_def Let_def)
  then show ?thesis
    by (intro getPoints_returns getPoint_returns angle_returns)
qed

lemma handleArc_returns: "\<exists>st'. handleArc cs a st = Inr st'"
proof (cases "7 \<le> length cs")
  case False
  then show ?thesis by (simp add: handleArc_def)
next
  case True
  obtain arc where arc: "createEllipticalArc (currentX (fst st)) (currentY (fst st))
      (resolveX (fst st) a (cs ! 5)) (resolveY (fst st) a (cs ! 6)) (cs ! 0) (cs ! 1)
      (js_div (js_mul (cs ! 2) (Fin pi)) (Fin 180))
      (\<not> js_eq (cs ! 3) (Fin 0)) (\<not> js_eq (cs ! 4) (Fin 0)) = Some arc"
    by (simp add: createEllipticalArc_def Let_def)
  from created_arc_returns [OF arc] obtain pts where "EllipseCurve_getPoints arc 50 = Some pts"
    by blast
  with True arc show ?thesis
    by (simp add: handleArc_def Let_def)
qed

lemma closePath_failure: "closePath s = Inl e \<Longrightarrow> e = TypeError"
  by (auto simp: closePath_def Let_def split: if_splits)

lemma dispatch_returns: "dispatch t cs st \<noteq> Inl NoReturn"
proof -
  have arc: "handleArc cs a st \<noteq> Inl NoReturn" for a
    using handleArc_returns [of cs a st] by auto
  have close: "handleClosePath st \<noteq> Inl NoReturn"
    using closePath_failure [of "snd st"] by (auto simp: handleClosePath_def split: sum.splits)
  show ?thesis
    using arc close by (simp add: dispatch_def Let_def)
qed

lemma runCommands_returns: "runCommands cmds st \<noteq> Inl NoReturn"
proof (induction cmds arbitrary: st)
  case Nil
  show ?case by simp
next
  case (Cons c cmds)
  have "parseCommand c st \<noteq> Inl NoReturn"
    using dispatch_returns by (simp add: parseCommand_def split: list.splits)
  with Cons show ?case
    by (auto split: sum.splits)
qed

lemma parsePath_returns: "parsePath d \<noteq> Inl NoReturn"
  using runCommands_returns [of "matchCommands d" "(reset, newShape)"] closePath_failure
  by (auto simp: parsePath_def split: sum.splits)

text \<open>An arc with \<open>rx = ry = 0\<close>: every sample of the ellipse is its centre.\<close>

lemma lineTo_replicate:
  "foldl (\<lambda>s p. lineTo (fst p) (snd p) s) sh (replicate (Suc k) c) =
     \<lparr>curves = curves sh @ (currentPoint sh, c) # replicate k (c, c), currentPoint = c\<rparr>"
proof (induction k arbitrary: sh)
  case 0
  show ?case by (simp add: lineTo_def)
next
  case (Suc k)
  have "foldl (\<lambda>s p. lineTo (fst p) (snd p) s) sh (replicate (Suc (Suc k)) c) =
        foldl (\<lambda>s p. lineTo (fst p) (snd p) s) (lineTo (fst c) (snd c) sh) (replicate (Suc k) c)"
    by simp
  also have "\<dots> = \<lparr>curves = curves (lineTo (fst c) (snd c) sh) @
        (currentPoint (lineTo (fst c) (snd c) sh), c) # replicate k (c, c), currentPoint = c\<rparr>"
    by (rule Suc.IH)
  also have "\<dots> = \<lparr>curves = curves sh @ (currentPoint sh, c) # replicate (Suc k) (c, c),
        currentPoint = c\<rparr>"
    by (simp add: lineTo_def)
  finally show ?case .
qed

lemma zero_radius_point:
  "EllipseCurve_getPoint
     \<lparr>aX = Fin cx, aY = Fin cy, xRadius = Fin 0, yRadius = Fin 0,
      aStartAngle = Fin s, aEndAngle = Fin e, aClockwise = False, aRotation = Fin 0\<rparr> t
   = Some (Fin cx, Fin cy)"
  by (simp add: EllipseCurve_getPoint_def EllipseCurve_angle_def js_sub_def js_eq_def Let_def)

lemma zero_radius_points:
  "EllipseCurve_getPoints
     \<lparr>aX = Fin cx, aY = Fin cy, xRadius = Fin 0, yRadius = Fin 0,
      aStartAngle = Fin s, aEndAngle = Fin e, aClockwise = False, aRotation = Fin 0\<rparr> n
   = Some (replicate (Suc n) (Fin cx, Fin cy))"
  by (simp add: EllipseCurve_getPoints_def Curve_getPoints_def zero_radius_point list_ex_iff
        map_replicate_const del: upt_Suc replicate_Suc)

lemma lineToAll_replicate:
  "lineToAll (replicate 51 c) sh =
     \<lparr>curves = curves sh @ (currentPoint sh, c) # replicate 49 (c, c), currentPoint = c\<rparr>"
proof -
  have "tl (replicate 51 c) = replicate (Suc 49) c"
    by simp
  then show ?thesis
    unfolding lineToAll_def by (simp only: lineTo_replicate)
qed

text \<open>
  C4 at the arc \<open>A0,0 0 0 0 10,10\<close> drawn from \<open>(0, 0)\<close>.  The ellipse is created (it
  always is), so the straight-line branch of \<open>handleArc\<close> is not taken: fifty segments are
  drawn, every one ending at the midpoint \<open>(5, 5)\<close>, and none reaches the end point
  \<open>(10, 10)\<close>.  Nothing else is recorded.  The handler returns on every input.
\<close>

theorem C4_zero_radius_arc:
  "handleArc [Fin 0, Fin 0, Fin 0, Fin 0, Fin 0, Fin 10, Fin 10] True (reset, newShape) =
     Inr (reset\<lparr>currentX := Fin 10, currentY := Fin 10\<rparr>,
          \<lparr>curves = ((Fin 0, Fin 0), (Fin 5, Fin 5)) # replicate 49 ((Fin 5, Fin 5), (Fin 5, Fin 5)),
           currentPoint = (Fin 5, Fin 5)\<rparr>)
   \<and> parsePath ''M0,0 A0,0 0 0 0 10,10'' =
     Inr \<lparr>curves = ((Fin 0, Fin 0), (Fin 5, Fin 5)) # replicate 49 ((Fin 5, Fin 5), (Fin 5, Fin 5))
                     @ [((Fin 5, Fin 5), (Fin 0, Fin 0))],
          currentPoint = (Fin 5, Fin 5)\<rparr>
   \<and> createEllipticalArc x1 y1 x2 y2 rx ry rotation largeArcFlag sweepFlag \<noteq> None
   \<and> (\<exists>st'. handleArc cs a st = Inr st')"
  using handleArc_returns [of cs a st]
  by (simp add: token_eval shape_eval parser_eval handleArc_def createEllipticalArc_def
        resolveX_def resolveY_def zero_radius_points lineToAll_replicate del: replicate_Suc)

section \<open>What processing resolves to\<close>

lemma fallbackShape_square:
  "fallbackShape =
     Inr \<lparr>curves = [((Fin (- 10), Fin (- 10)), (Fin 10, Fin (- 10))),
                    ((Fin 10, Fin (- 10)), (Fin 10, Fin 10)),
                    ((Fin 10, Fin 10), (Fin (- 10), Fin 10)),
                    ((Fin (- 10), Fin 10), (Fin (- 10), Fin (- 10)))],
          currentPoint = (Fin (- 10), Fin 10)\<rparr>"
  by (simp add: fallbackShape_def shape_eval Let_def)

lemma processPaths_entries:
  "processPaths ps r =
     Inr \<lparr>shapes = shapes r @ map shape (List.map_filter parsedEntry ps),
          curves3 = curves3 r @
            map (\<lambda>e. getPoints (Fin 100) (shape e))
              (filter (\<lambda>e. 2 < length (getPoints (Fin 100) (shape e))) (List.map_filter parsedEntry ps)),
          individualShapes = individualShapes r @ List.map_filter parsedEntry ps\<rparr>"
proof (induction ps r rule: processPaths.induct)
  case (4 d ps r)
  show ?case
  proof (cases "d = []")
    case True
    with 4 show ?thesis by (simp add: List.map_filter_simps parsedEntry_def)
  next
    case False
    show ?thesis
    proof (cases "parsePath d")
      case (Inl e)
      with parsePath_returns [of d] have "e = TypeError" by (cases e) auto
      with Inl False 4 show ?thesis by (simp add: List.map_filter_simps parsedEntry_def)
    next
      case (Inr sh)
      with False 4(3) [OF False Inr refl refl] show ?thesis
        by (simp add: List.map_filter_simps parsedEntry_def Let_def)
    qed
  qed
qed (simp_all add: List.map_filter_simps parsedEntry_def)

text \<open>
  C6, as stated, fails.  The path \<open>M0,0 L0,0\<close> flattens to a single point; it is kept as
  a shape and the result has \<open>success = true\<close>.  The path \<open>M0,0\<close> yields no shape at all
  (closing an empty path throws, which the loop catches); the result then has
  \<open>success = true\<close> and the substitute square as its only shape.
\<close>

theorem C6_counterexample:
  "processAdvancedSVGFile (Loaded [Node (Some ''M0,0 L0,0'')]) =
     Inr \<lparr>success = True,
          data = Some \<lparr>
            shapes = [\<lparr>curves = [((Fin 0, Fin 0), (Fin 0, Fin 0))], currentPoint = (Fin 0, Fin 0)\<rparr>],
            curves3 = [],
            individualShapes =
              [\<lparr>boundingBox = \<lparr>bb_min = (Fin 0, Fin 0), bb_max = (Fin 0, Fin 0),
                               bb_size = (Fin 0, Fin 0)\<rparr>,
                complexity = Fin 1, curveCount = Fin 0,
                shape = \<lparr>curves = [((Fin 0, Fin 0), (Fin 0, Fin 0))], currentPoint = (Fin 0, Fin 0)\<rparr>,
                pathData = ''M0,0 L0,0''\<rparr>]\<rparr>,
          error = None\<rparr>
   \<and> getPoints (Fin 100)
        \<lparr>curves = [((Fin 0, Fin 0), (Fin 0, Fin 0))], currentPoint = (Fin 0, Fin 0)\<rparr> = [(Fin 0, Fin 0)]
   \<and> processAdvancedSVGFile (Loaded [Node (Some ''M0,0'')]) =
     Inr \<lparr>success = True,
          data = Some \<lparr>
            shapes = [\<lparr>curves = [((Fin (- 10), Fin (- 10)), (Fin 10, Fin (- 10))),
                              ((Fin 10, Fin (- 10)), (Fin 10, Fin 10)),
                              ((Fin 10, Fin 10), (Fin (- 10), Fin 10)),
                              ((Fin (- 10), Fin 10), (Fin (- 10), Fin (- 10)))],
                    currentPoint = (Fin (- 10), Fin 10)\<rparr>],
            curves3 = [], individualShapes = []\<rparr>,
          error = None\<rparr>"
  by (simp add: processAdvancedSVGFile_def fallbackShape_square token_eval shape_eval parser_eval
        analyzeShape_def getPoints_def Curve_getPoints_def countCurveLetters_def isCurveLetter_def
        Math_min_def Math_max_def)

text \<open>
  C6, amended.  When the file has been read and loaded, the result has
  \<open>success = true\<close>, and its \<open>individualShapes\<close> are the entries of all paths with a
  non-empty \<open>d\<close> that \<open>parsePath\<close> turns into a shape, in order and however few points
  they have; its \<open>shapes\<close> are the shapes of these entries, or the square with corners
  \<open>(-10,-10)\<close>, \<open>(10,-10)\<close>, \<open>(10,10)\<close>, \<open>(-10,10)\<close> alone when there is no entry.  The
  result has \<open>success = false\<close> and an error text when reading the file fails or loading
  throws.  No result reports that there is no valid outline.
\<close>

theorem C6_resolves_with_shapes_or_square:
  "processAdvancedSVGFile (Loaded paths) =
     Inr \<lparr>success = True,
          data = Some \<lparr>
            shapes =
              (if List.map_filter parsedEntry paths = []
               then [\<lparr>curves = [((Fin (- 10), Fin (- 10)), (Fin 10, Fin (- 10))),
                              ((Fin 10, Fin (- 10)), (Fin 10, Fin 10)),
                              ((Fin 10, Fin 10), (Fin (- 10), Fin 10)),
                              ((Fin (- 10), Fin 10), (Fin (- 10), Fin (- 10)))],
                      currentPoint = (Fin (- 10), Fin 10)\<rparr>]
               else map shape (List.map_filter parsedEntry paths)),
            curves3 =
              map (\<lambda>e. getPoints (Fin 100) (shape e))
                (filter (\<lambda>e. 2 < length (getPoints (Fin 100) (shape e)))
                   (List.map_filter parsedEntry paths)),
            individualShapes = List.map_filter parsedEntry paths\<rparr>,
          error = None\<rparr>
   \<and> processAdvancedSVGFile ReadError =
     Inr \<lparr>success = False, data = None, error = Some ''Failed to read file''\<rparr>
   \<and> processAdvancedSVGFile (LoadThrows msg) =
     Inr \<lparr>success = False, data = None,
          error = Some (''Advanced SVG processing failed: '' @ msg)\<rparr>"
  by (simp add: processAdvancedSVGFile_def processPaths_entries fallbackShape_square)

text \<open>
  The amended C6 at five paths: a one-point shape and a triangle are kept, the paths
  without a node, without \<open>d\<close> or without a segment give nothing.
\<close>

theorem C6_witness:
  "map_option shapes (data (projr (processAdvancedSVGFile
      (Loaded [Node (Some ''M0,0 L0,0''), NoNode, Node (Some ''M0,0''), Node None,
               Node (Some ''M0,0 L10,0 L10,10'')])))) =
     Some [\<lparr>curves = [((Fin 0, Fin 0), (Fin 0, Fin 0))], currentPoint = (Fin 0, Fin 0)\<rparr>,
           \<lparr>curves = [((Fin 0, Fin 0), (Fin 10, Fin 0)), ((Fin 10, Fin 0), (Fin 10, Fin 10)),
                      ((Fin 10, Fin 10), (Fin 0, Fin 0))],
             currentPoint = (Fin 10, Fin 10)\<rparr>]
   \<and> success (projr (processAdvancedSVGFile
      (Loaded [Node (Some ''M0,0 L0,0''), NoNode, Node (Some ''M0,0''), Node None,
               Node (Some ''M0,0 L10,0 L10,10'')])))"
  using C6_resolves_with_shapes_or_square
    [of "[Node (Some ''M0,0 L0,0''), NoNode, Node (Some ''M0,0''), Node None,
          Node (Some ''M0,0 L10,0 L10,10'')]"]
  by (simp add: List.map_filter_simps parsedEntry_def token_eval shape_eval parser_eval)

section \<open>Detail settings\<close>

lemma clamp_eq:
  "lo \<le> hi \<Longrightarrow> Math_max (Fin lo) (Math_min (Fin hi) x) = clamp x (Fin lo) (Fin hi)"
  by (cases x) (auto simp: Math_max_def Math_min_def clamp_def js_gt_def)

lemma clamp_range:
  assumes "lo \<le> hi"
  shows "clamp x (Fin lo) (Fin hi) = NaN \<or> (\<exists>v. clamp x (Fin lo) (Fin hi) = Fin v \<and> lo \<le> v \<and> v \<le> hi)"
  using assms by (cases x) (auto simp: clamp_def js_gt_def)

lemma scaled_floor_bound:
  assumes "y = NaN \<or> (\<exists>v. y = Fin v \<and> 32 \<le> v \<and> v \<le> 128)" and "0 \<le> m" and "m \<le> 4"
  shows "\<not> js_gt (Math_floor (js_mul y (Fin m))) (Fin 512)"
proof (cases "y = NaN")
  case True
  then show ?thesis by (simp add: js_gt_def)
next
  case False
  with assms(1) obtain v where v: "y = Fin v" "32 \<le> v" "v \<le> 128" by blast
  have "v * m \<le> 128 * 4"
    using v assms(2,3) by (intro mult_mono) auto
  then have "of_int \<lfloor>v * m\<rfloor> \<le> (512::real)"
    using of_int_floor_le [of "v * m"] by linarith
  then show ?thesis using v by (simp add: js_gt_def)
qed

lemma optimal_curveSegments_range:
  "curveSegments (optimalSettingsOf s) = NaN \<or>
   (\<exists>v. curveSegments (optimalSettingsOf s) = Fin v \<and> 32 \<le> v \<and> v \<le> 128)"
  using clamp_range [of 32 128 "js_div (complexity s) (Fin 5)"]
  by (simp add: optimalSettingsOf_def clamp_eq)

text \<open>
  C7.  On every rung \<open>createProgressiveDetailLevels\<close> returns, for every entry and
  index, \<open>curveSegments\<close> (the specification's \<open>curveResolution\<close>) is not above 512.
\<close>

theorem C7_curveSegments_at_most_512:
  assumes "createProgressiveDetailLevels individuals i = Inr lv" and "(n, s) \<in> set lv"
  shows "\<not> js_gt (curveSegments s) (Fin 512)"
proof -
  from assms obtain analysis m where
    s: "s = levelSettings (optimalSettings analysis) m" and m: "(n, m) \<in> set levels"
    and a: "analyzeShapeForZoom individuals i = Inr (Some analysis)"
    by (auto simp: createProgressiveDetailLevels_def split: sum.splits option.splits)
  from a obtain e where "optimalSettings analysis = optimalSettingsOf e"
    by (auto simp: analyzeShapeForZoom_def Let_def split: if_splits)
  then have range: "curveSegments (optimalSettings analysis) = NaN \<or>
      (\<exists>v. curveSegments (optimalSettings analysis) = Fin v \<and> 32 \<le> v \<and> v \<le> 128)"
    using optimal_curveSegments_range [of e] by simp
  from m have "0 \<le> m \<and> m \<le> 4" by (auto simp: levels_def)
  with range show ?thesis
    unfolding s by (simp add: levelSettings_def scaled_floor_bound)
qed

text \<open>C7 at an entry with 10,000 curve commands, on the Ultra rung.\<close>

theorem C7_witness:
  "createProgressiveDetailLevels [adversarialEntry] 0 =
     Inr [(1, \<lparr>resolution = Fin 100, extrudeDepth = Fin (1 / 2), bevelEnabled = True,
                bevelThickness = Fin (3 / 10), bevelSize = Fin (2 / 10), bevelSegments = Fin 8,
                curveSegments = Fin 64, steps = Fin 2\<rparr>),
          (2, \<lparr>resolution = Fin 200, extrudeDepth = Fin (1 / 2), bevelEnabled = True,
                bevelThickness = Fin (3 / 10), bevelSize = Fin (2 / 10), bevelSegments = Fin 8,
                curveSegments = Fin 128, steps = Fin 4\<rparr>),
          (3, \<lparr>resolution = Fin 400, extrudeDepth = Fin (1 / 2), bevelEnabled = True,
                bevelThickness = Fin (3 / 10), bevelSize = Fin (2 / 10), bevelSegments = Fin 8,
                curveSegments = Fin 256, steps = Fin 8\<rparr>),
          (4, \<lparr>resolution = Fin 800, extrudeDepth = Fin (1 / 2), bevelEnabled = True,
                bevelThickness = Fin (3 / 10), bevelSize = Fin (2 / 10), bevelSegments = Fin 8,
                curveSegments = Fin 512, steps = Fin 16\<rparr>)]
   \<and> \<not> js_gt (Fin 512) (Fin 512)"
  using C7_curveSegments_at_most_512 [of "[adversarialEntry]" 0 _ 4
      "\<lparr>resolution = Fin 800, extrudeDepth = Fin (1 / 2), bevelEnabled = True,
                bevelThickness = Fin (3 / 10), bevelSize = Fin (2 / 10), bevelSegments = Fin 8,
                curveSegments = Fin 512, steps = Fin 16\<rparr>"]
  by (simp add: createProgressiveDetailLevels_def analyzeShapeForZoom_def optimalSettingsOf_def
        adversarialEntry_def levels_def levelSettings_def Math_max_def Math_min_def js_gt_def
        Vector2_length_def Let_def)

lemma js_mul_one: "js_mul x (Fin 1) = x"
  by (cases x) (simp_all add: signed_inf_def)

lemma steps_fixed:
  "Math_max (Fin 1) (Math_floor (Math_max (Fin 1) (Math_min (Fin 4) (Math_floor x)))) =
   Math_max (Fin 1) (Math_min (Fin 4) (Math_floor x))"
  by (cases x) (auto simp: Math_max_def Math_min_def)

text \<open>
  C8, as stated, fails.  With five curve commands \<open>bevelSegments\<close> is \<open>2.5\<close>, which is
  not an integer.
\<close>

theorem C8_counterexample:
  "bevelSegments (optimalSettingsOf fiveCurveEntry) = Fin (5 / 2)
   \<and> Math_floor (bevelSegments (optimalSettingsOf fiveCurveEntry)) = Fin 2"
  by (simp add: optimalSettingsOf_def fiveCurveEntry_def Math_max_def Math_min_def)

text \<open>
  C8, amended.  The settings \<open>analyzeShapeForZoom\<close> computes are the stated clamps, with
  \<open>bevelSegments = clamp(curveCount / 2, 2, 8)\<close> by real division and not turned into
  an integer.  The rung with multiplier \<open>1\<close> of the ladder is these settings with
  \<open>resolution\<close> and \<open>curveSegments\<close> rounded down.
\<close>

theorem C8_medium_settings:
  "curveSegments (optimalSettingsOf s) = clamp (js_div (complexity s) (Fin 5)) (Fin 32) (Fin 128)
   \<and> bevelEnabled (optimalSettingsOf s) = js_gt (curveCount s) (Fin 5)
   \<and> bevelThickness (optimalSettingsOf s) =
       (if js_gt (curveCount s) (Fin 10) then Fin (3 / 10) else Fin (1 / 10))
   \<and> bevelSize (optimalSettingsOf s) =
       (if js_gt (curveCount s) (Fin 10) then Fin (2 / 10) else Fin (5 / 100))
   \<and> bevelSegments (optimalSettingsOf s) = clamp (js_div (curveCount s) (Fin 2)) (Fin 2) (Fin 8)
   \<and> steps (optimalSettingsOf s) =
       clamp (Math_floor (js_div (complexity s) (Fin 50))) (Fin 1) (Fin 4)
   \<and> extrudeDepth (optimalSettingsOf s) =
       clamp (js_div (Vector2_length (bb_size (boundingBox s))) (Fin 20)) (Fin (1 / 2)) (Fin 5)
   \<and> levelSettings (optimalSettingsOf s) 1 =
       (optimalSettingsOf s)\<lparr>resolution := Math_floor (resolution (optimalSettingsOf s)),
                              curveSegments := Math_floor (curveSegments (optimalSettingsOf s))\<rparr>"
  by (simp add: optimalSettingsOf_def clamp_eq [symmetric] levelSettings_def js_mul_one steps_fixed)

section \<open>The complexity score\<close>

lemma analyzeShape_complexity:
  "complexity (analyzeShape sh d) =
     Fin (real (length (getPoints (Fin 100) sh)) + real (countCurveLetters d) * 10)"
  by (simp add: analyzeShape_def Let_def)

lemma upt_unfold: "[i..<numeral n] = (if i < numeral n then i # [Suc i..<numeral n] else [])"
  by (rule upt_rec)

lemmas curve_eval = handleQuadraticBezier_def resolveX_def resolveY_def lineToAll_def
  Curve_getPoints_def QuadraticBezierCurve_getPoint_def QuadraticBezier_def upt_unfold

lemmas analysis_eval = pathComplexity_def analyzeShape_def getPoints_def countCurveLetters_def
  isCurveLetter_def

text \<open>
  C9, as stated, fails.  The two paths below are the same but for one \<open>Q\<close> command
  after the \<open>M\<close>.  The text \<open>1-1\<close> is not a number, so the first path draws 37 segments
  between points with NaN coordinates, none of which equals another: 76 points, score
  76.  In the second path the \<open>Q\<close> sets the current point to \<open>(5, 0)\<close>, the \<open>h0\<close>
  segments collapse to one point, and 64 points remain: score 74 with one curve more.
\<close>

theorem C9_counterexample:
  "pathComplexity
     ''M1-1,1-1 h0 h0 h0 h0 h0 h0 h0 h0 h0 h0 h0 h0 h0 h0 h0 h0 h0 h0 h0 h0 h0 h0 h0 h0 h0 h0 h0 h0 h0 h0 h0 h0 h0 h0 h0 h0 h0'' = Inr (Fin 76)
   \<and> countCurveLetters
     ''M1-1,1-1 h0 h0 h0 h0 h0 h0 h0 h0 h0 h0 h0 h0 h0 h0 h0 h0 h0 h0 h0 h0 h0 h0 h0 h0 h0 h0 h0 h0 h0 h0 h0 h0 h0 h0 h0 h0 h0'' = 0
   \<and> pathComplexity
     ''M1-1,1-1 Q5,0 5,0 h0 h0 h0 h0 h0 h0 h0 h0 h0 h0 h0 h0 h0 h0 h0 h0 h0 h0 h0 h0 h0 h0 h0 h0 h0 h0 h0 h0 h0 h0 h0 h0 h0 h0 h0 h0 h0'' = Inr (Fin 74)
   \<and> countCurveLetters
     ''M1-1,1-1 Q5,0 5,0 h0 h0 h0 h0 h0 h0 h0 h0 h0 h0 h0 h0 h0 h0 h0 h0 h0 h0 h0 h0 h0 h0 h0 h0 h0 h0 h0 h0 h0 h0 h0 h0 h0 h0 h0 h0 h0'' = 1"
  by (simp add: token_eval shape_eval parser_eval curve_eval analysis_eval)

text \<open>
  C9, amended.  \<open>analyzeShape\<close> returns the number of points of the shape plus ten
  times the number of curve letters of the path text; that number is the number of
  tokenized commands whose letter is a cubic, quadratic or arc letter.  Of two path
  texts that parse, the one with strictly more curve commands has the strictly greater
  score provided its shape has no fewer points.
\<close>

theorem C9_complexity_score:
  "complexity (analyzeShape sh d) =
     Fin (real (length (getPoints (Fin 100) sh)) + real (countCurveLetters d) * 10)
   \<and> curveCount (analyzeShape sh d) = Fin (real (countCurveLetters d))
   \<and> countCurveLetters d = length (filter (\<lambda>c. isCurveLetter (hd c)) (matchCommands d))
   \<and> (parsePath d = Inr sh \<and> parsePath d' = Inr sh'
        \<and> length (getPoints (Fin 100) sh) \<le> length (getPoints (Fin 100) sh')
        \<and> countCurveLetters d < countCurveLetters d'
      \<longrightarrow> pathComplexity d = Inr (complexity (analyzeShape sh d))
          \<and> pathComplexity d' = Inr (complexity (analyzeShape sh' d'))
          \<and> js_lt (complexity (analyzeShape sh d)) (complexity (analyzeShape sh' d')))"
  by (simp add: analyzeShape_complexity count_curve_commands pathComplexity_def)
     (simp add: analyzeShape_def Let_def)

text \<open>
  The amended C9 at the paths \<open>M0,0 L30,0\<close> and \<open>M0,0 L30,0 Q15,9 0,0\<close>, which differ by
  one quadratic curve drawn back to the start.
\<close>

theorem C9_witness:
  "parsePath ''M0,0 L30,0'' = Inr (projr (parsePath ''M0,0 L30,0''))
   \<and> parsePath ''M0,0 L30,0 Q15,9 0,0'' = Inr (projr (parsePath ''M0,0 L30,0 Q15,9 0,0''))
   \<and> length (getPoints (Fin 100) (projr (parsePath ''M0,0 L30,0''))) = 3
   \<and> length (getPoints (Fin 100) (projr (parsePath ''M0,0 L30,0 Q15,9 0,0''))) = 32
   \<and> countCurveLetters ''M0,0 L30,0'' = 0 \<and> countCurveLetters ''M0,0 L30,0 Q15,9 0,0'' = 1
   \<and> pathComplexity ''M0,0 L30,0'' = Inr (Fin 3)
   \<and> pathComplexity ''M0,0 L30,0 Q15,9 0,0'' = Inr (Fin 42)
   \<and> js_lt (Fin 3) (Fin 42)"
proof -
  have short: "parsePath ''M0,0 L30,0'' =
      Inr \<lparr>curves = [((Fin 0, Fin 0), (Fin 30, Fin 0)), ((Fin 30, Fin 0), (Fin 0, Fin 0))],
           currentPoint = (Fin 30, Fin 0)\<rparr>"
    by (simp add: token_eval shape_eval parser_eval)
  have long: "pathComplexity ''M0,0 L30,0 Q15,9 0,0'' = Inr (Fin 42)"
    by (simp add: token_eval shape_eval parser_eval curve_eval analysis_eval)
  then obtain s where s: "parsePath ''M0,0 L30,0 Q15,9 0,0'' = Inr s"
    by (auto simp: pathComplexity_def split: sum.splits)
  have count: "countCurveLetters ''M0,0 L30,0'' = 0" "countCurveLetters ''M0,0 L30,0 Q15,9 0,0'' = 1"
    by (simp_all add: countCurveLetters_def isCurveLetter_def)
  have three: "length (getPoints (Fin 100)
      \<lparr>curves = [((Fin 0, Fin 0), (Fin 30, Fin 0)), ((Fin 30, Fin 0), (Fin 0, Fin 0))],
        currentPoint = (Fin 30, Fin 0)\<rparr>) = 3"
    by (simp add: getPoints_def Curve_getPoints_def shape_eval)
  have score: "complexity (analyzeShape s ''M0,0 L30,0 Q15,9 0,0'') = Fin 42"
    using long s by (simp add: pathComplexity_def)
  then have many: "length (getPoints (Fin 100) s) = 32"
    using count(2) by (simp add: analyzeShape_complexity)
  note fact = C9_complexity_score
    [of "\<lparr>curves = [((Fin 0, Fin 0), (Fin 30, Fin 0)), ((Fin 30, Fin 0), (Fin 0, Fin 0))],
          currentPoint = (Fin 30, Fin 0)\<rparr>" "''M0,0 L30,0''" "''M0,0 L30,0 Q15,9 0,0''" s]
  have short_score: "pathComplexity ''M0,0 L30,0'' = Inr (Fin 3)"
    using short three count(1) by (simp add: pathComplexity_def analyzeShape_complexity)
  have "js_lt (Fin 3) (Fin 42)"
    using fact short s three many count short_score score by (simp add: pathComplexity_def)
  then show ?thesis
    using short s three many count short_score long by simp
qed

end
